theory Spec2Isabelle
  imports Complex_Main
begin

section \<open>Python floats\<close>

text \<open>
  The monetary amounts of \<^verbatim>\<open>generate_tax_docs.py\<close> are Python floats, that is IEEE-754
  binary64 numbers. The value texts on a page are made by multiplying such a number with a
  float constant (\<^verbatim>\<open>wages * 0.22\<close>) and formatting it (\<^verbatim>\<open>f"${fed_tax:,.2f}"\<close>), so what is
  drawn depends on the binary rounding of the product. A float is modelled with its sign, its
  mantissa and its binary exponent: \<open>Finite s m e\<close> stands for \<open>(-1)\<^sup>s * m * 2\<^sup>e\<close>.
\<close>

datatype pyfloat = Finite bool nat int | Infinity bool | NaN

text \<open>The number of binary digits of a natural number.\<close>

fun bitlen :: "nat \<Rightarrow> nat" where
  "bitlen n = (if n = 0 then 0 else Suc (bitlen (n div 2)))"

declare bitlen.simps [simp del]

text \<open>
  Rounding the quotient \<open>n / d\<close> to the nearest natural number, ties to the even neighbour:
  \<open>q\<close> and \<open>r\<close> are the quotient and the remainder.
\<close>

definition ties_even :: "nat \<Rightarrow> nat \<Rightarrow> nat \<Rightarrow> nat" where
  "ties_even d q r = (if d < 2 * r \<or> (2 * r = d \<and> odd q) then q + 1 else q)"

definition round_half_even :: "nat \<Rightarrow> nat \<Rightarrow> nat" where
  "round_half_even n d = ties_even d (n div d) (n mod d)"

text \<open>
  \<open>floor_log2 n d\<close> is the integer \<open>k\<close> with \<open>2\<^sup>k \<le> n / d < 2\<^sup>k\<^sup>+\<^sup>1\<close>, for positive \<open>n\<close> and \<open>d\<close>:
  the difference of the bit lengths is \<open>k\<close> or \<open>k + 1\<close>.
\<close>

definition log2_adjust :: "nat \<Rightarrow> nat \<Rightarrow> int \<Rightarrow> int" where
  "log2_adjust n d k = (if d * 2 ^ nat k \<le> n * 2 ^ nat (- k) then k else k - 1)"

definition floor_log2 :: "nat \<Rightarrow> nat \<Rightarrow> int" where
  "floor_log2 n d = log2_adjust n d (int (bitlen n) - int (bitlen d))"

text \<open>
  A rounded mantissa \<open>m \<le> 2\<^sup>5\<^sup>3\<close> at exponent \<open>ex\<close> becomes a float: a mantissa that was rounded
  up to \<open>2\<^sup>5\<^sup>3\<close> moves to the next exponent, and a number beyond the largest finite float
  \<open>(2\<^sup>5\<^sup>3 - 1) * 2\<^sup>9\<^sup>7\<^sup>1\<close> overflows to infinity.
\<close>

definition pack :: "bool \<Rightarrow> nat \<Rightarrow> int \<Rightarrow> pyfloat" where
  "pack s m ex =
     (if m = 2 ^ 53 then (if 971 < ex + 1 then Infinity s else Finite s (2 ^ 52) (ex + 1))
      else if 971 < ex then Infinity s else Finite s m ex)"

definition round_to :: "bool \<Rightarrow> nat \<Rightarrow> nat \<Rightarrow> int \<Rightarrow> pyfloat" where
  "round_to s n d ex = pack s (round_half_even (n * 2 ^ nat (- ex)) (d * 2 ^ nat ex)) ex"

text \<open>
  \<open>round_ratio s n d\<close> is the float nearest to \<open>(-1)\<^sup>s * n / d\<close> (round to nearest, ties to
  even): 53 bits of mantissa for a normal number, the fixed exponent \<open>-1074\<close> for a subnormal
  one. Every arithmetic result and every literal is rounded by it, so the floats that the
  program computes with have one representation each.
\<close>

definition round_ratio :: "bool \<Rightarrow> nat \<Rightarrow> nat \<Rightarrow> pyfloat" where
  "round_ratio s n d =
     (if n = 0 then Finite s 0 (- 1074)
      else round_to s n d (max (floor_log2 n d - 52) (- 1074)))"

text \<open>
  A decimal literal of the source: \<open>lit n k\<close> is the float that Python reads from the digits
  \<open>n\<close> with \<open>k\<close> of them after the point, so \<^verbatim>\<open>0.22\<close> is \<open>lit 22 2\<close>, \<^verbatim>\<open>75432.00\<close> is
  \<open>lit 7543200 2\<close>, and the integer \<^verbatim>\<open>25\<close> converted to a float is \<open>lit 25 0\<close>.
\<close>

definition lit :: "nat \<Rightarrow> nat \<Rightarrow> pyfloat" where
  "lit n k = round_ratio False n (10 ^ k)"

text \<open>The product \<^verbatim>\<open>x * y\<close> of two floats: the exact product, rounded once.\<close>

fun fmul :: "pyfloat \<Rightarrow> pyfloat \<Rightarrow> pyfloat" where
  "fmul NaN y = NaN"
| "fmul x NaN = NaN"
| "fmul (Infinity s) (Infinity t) = Infinity (s \<noteq> t)"
| "fmul (Infinity s) (Finite t m e) = (if m = 0 then NaN else Infinity (s \<noteq> t))"
| "fmul (Finite s m e) (Infinity t) = (if m = 0 then NaN else Infinity (s \<noteq> t))"
| "fmul (Finite s m e) (Finite t n f) =
     round_ratio (s \<noteq> t) (m * n * 2 ^ nat (e + f)) (2 ^ nat (- (e + f)))"

subsection \<open>Formatting with \<^verbatim>\<open>,.2f\<close>\<close>

fun decimal :: "nat \<Rightarrow> string" where
  "decimal n =
     (if n < 10 then [''0123456789'' ! n]
      else decimal (n div 10) @ [''0123456789'' ! (n mod 10)])"

declare decimal.simps [simp del]

text \<open>The thousands separator: a comma before every group of three digits, from the right.\<close>

fun group3 :: "string \<Rightarrow> string" where
  "group3 (a # b # c # d # ds) = a # b # c # CHR '','' # group3 (d # ds)"
| "group3 ds = ds"

definition thousands :: "string \<Rightarrow> string" where
  "thousands ds = rev (group3 (rev ds))"

definition fixed2 :: "nat \<Rightarrow> string" where
  "fixed2 cents =
     thousands (decimal (cents div 100)) @ ''.'' @
     [''0123456789'' ! (cents mod 100 div 10), ''0123456789'' ! (cents mod 10)]"

text \<open>
  \<^verbatim>\<open>format(x, ",.2f")\<close>: the exact binary value is rounded to two decimals, ties to even; the
  sign of a negative number stays when it rounds to zero.
\<close>

fun format_2f :: "pyfloat \<Rightarrow> string" where
  "format_2f NaN = ''nan''"
| "format_2f (Infinity s) = (if s then ''-inf'' else ''inf'')"
| "format_2f (Finite s m e) =
     (if s then ''-'' else '''') @
     fixed2 (round_half_even (m * 100 * 2 ^ nat e) (2 ^ nat (- e)))"

text \<open>The f-string \<^verbatim>\<open>f"${x:,.2f}"\<close> of every monetary value text.\<close>

definition money :: "pyfloat \<Rightarrow> string" where
  "money x = ''$'' @ format_2f x"

subsection \<open>The value of a float\<close>

text \<open>
  The rational number that a finite float stands for (zero for an infinity and for NaN), to
  compare the arithmetic of the program with exact arithmetic.
\<close>

fun fval :: "pyfloat \<Rightarrow> rat" where
  "fval (Finite s m e) = (if s then - 1 else 1) * of_nat m * 2 powi e"
| "fval (Infinity s) = 0"
| "fval NaN = 0"

text \<open>
  The money text of the exact quotient \<open>n / d\<close>, rounded to cents as \<^verbatim>\<open>,.2f\<close> rounds: what
  would be drawn if a derived value were the exact decimal product.
\<close>

definition exact_money :: "nat \<Rightarrow> nat \<Rightarrow> string" where
  "exact_money n d = ''$'' @ fixed2 (round_half_even (n * 100) d)"


section \<open>The drawing canvas\<close>

text \<open>
  The layout routines draw on a \<^verbatim>\<open>reportlab.pdfgen.canvas.Canvas\<close>. The canvas keeps a
  graphics state (font, fill colour, stroke colour, line width) and the drawing operations
  of the page under construction; every operation records the graphics state it was drawn
  with. Lengths are in points and kept as exact rational numbers: nothing below depends
  on the binary rounding of a coordinate.
\<close>

datatype color = Color rat rat rat

text \<open>The three colours imported from \<^verbatim>\<open>reportlab.lib.colors\<close>, as red, green and blue.\<close>

definition black :: color where
  "black = Color 0 0 0"

definition gray :: color where
  "gray = Color (128 / 255) (128 / 255) (128 / 255)"

definition lightgrey :: color where
  "lightgrey = Color (211 / 255) (211 / 255) (211 / 255)"

text \<open>\<^verbatim>\<open>reportlab.lib.units.inch\<close> and \<^verbatim>\<open>reportlab.lib.pagesizes.letter\<close>.\<close>

definition inch :: rat where
  "inch = 72"

definition letter :: "rat \<times> rat" where
  "letter = (8.5 * inch, 11 * inch)"

datatype op =
    DrawString rat rat string rat color string
  | Rect rat rat rat rat color rat
  | Line rat rat rat rat color rat

text \<open>
  \<open>DrawString x y font size fill text\<close> is a text drawn at \<open>(x, y)\<close>;
  \<open>Rect x y w h stroke width\<close> is the outline of a rectangle (\<^verbatim>\<open>rect\<close> strokes and does not
  fill by default); \<open>Line x1 y1 x2 y2 stroke width\<close> is a line.
\<close>

record canvas =
  file_name :: string
  pagesize :: "rat \<times> rat"
  fontname :: string
  fontsize :: rat
  fillColor :: color
  strokeColor :: color
  lineWidth :: rat
  code :: "op list"
  pages :: "op list list"

text \<open>
  \<^verbatim>\<open>canvas.Canvas(filename, pagesize=...)\<close> : an empty page in the initial graphics state of
  the library (Helvetica 12, black fill and stroke, line width 1).
\<close>

definition Canvas :: "string \<Rightarrow> rat \<times> rat \<Rightarrow> canvas" where
  "Canvas name psize =
     \<lparr>file_name = name, pagesize = psize, fontname = ''Helvetica'', fontsize = 12,
      fillColor = black, strokeColor = black, lineWidth = 1, code = [], pages = []\<rparr>"

definition setFont :: "string \<Rightarrow> rat \<Rightarrow> canvas \<Rightarrow> canvas" where
  "setFont name psize c = c\<lparr>fontname := name, fontsize := psize\<rparr>"

definition setFillColor :: "color \<Rightarrow> canvas \<Rightarrow> canvas" where
  "setFillColor col c = c\<lparr>fillColor := col\<rparr>"

definition setStrokeColor :: "color \<Rightarrow> canvas \<Rightarrow> canvas" where
  "setStrokeColor col c = c\<lparr>strokeColor := col\<rparr>"

definition setLineWidth :: "rat \<Rightarrow> canvas \<Rightarrow> canvas" where
  "setLineWidth w c = c\<lparr>lineWidth := w\<rparr>"

definition drawString :: "rat \<Rightarrow> rat \<Rightarrow> string \<Rightarrow> canvas \<Rightarrow> canvas" where
  "drawString x y text c =
     c\<lparr>code := code c @ [DrawString x y (fontname c) (fontsize c) (fillColor c) text]\<rparr>"

definition rect :: "rat \<Rightarrow> rat \<Rightarrow> rat \<Rightarrow> rat \<Rightarrow> canvas \<Rightarrow> canvas" where
  "rect x y w h c = c\<lparr>code := code c @ [Rect x y w h (strokeColor c) (lineWidth c)]\<rparr>"

definition line :: "rat \<Rightarrow> rat \<Rightarrow> rat \<Rightarrow> rat \<Rightarrow> canvas \<Rightarrow> canvas" where
  "line x1 y1 x2 y2 c = c\<lparr>code := code c @ [Line x1 y1 x2 y2 (strokeColor c) (lineWidth c)]\<rparr>"

text \<open>
  \<^verbatim>\<open>showPage\<close> closes the page under construction; \<^verbatim>\<open>save\<close> closes it when something was
  drawn on it, and the document is the list of the closed pages.
\<close>

definition showPage :: "canvas \<Rightarrow> canvas" where
  "showPage c = c\<lparr>pages := pages c @ [code c], code := []\<rparr>"

definition document :: "canvas \<Rightarrow> op list list" where
  "document c = pages (if code c \<noteq> [] then showPage c else c)"

subsection \<open>Statements in sequence\<close>

text \<open>
  A routine is the list of its statements, each one a function on the state it mutates;
  \<open>seq\<close> runs them in order, \<open>if_then\<close> is an \<^verbatim>\<open>if\<close> without \<^verbatim>\<open>else\<close>, and a \<^verbatim>\<open>for\<close> loop
  over a list is \<open>seq\<close> of the mapped body.
\<close>

fun seq :: "('s \<Rightarrow> 's) list \<Rightarrow> 's \<Rightarrow> 's" where
  "seq [] s = s"
| "seq (f # fs) s = seq fs (f s)"

definition if_then :: "bool \<Rightarrow> ('s \<Rightarrow> 's) list \<Rightarrow> 's \<Rightarrow> 's" where
  "if_then b fs s = (if b then seq fs s else s)"

section \<open>The layout routines\<close>

definition draw_w2 ::
  "canvas \<Rightarrow> string \<Rightarrow> pyfloat \<Rightarrow> string \<Rightarrow> string \<Rightarrow> string \<Rightarrow> string \<Rightarrow> bool \<Rightarrow> bool \<Rightarrow> canvas"
where
  "draw_w2 c employer_name wages employee_name employee_ssn ein year is_blank low_quality =
    (case letter of (width, height) \<Rightarrow>
     seq [
      \<comment> \<open>Title\<close>
      setFont ''Helvetica-Bold'' 16,
      drawString (1 * inch) (height - 0.75 * inch) (''Form W-2 Wage and Tax Statement '' @ year),
      \<comment> \<open>Form border\<close>
      setStrokeColor black,
      setLineWidth 2,
      rect (0.5 * inch) (1 * inch) (width - 1 * inch) (height - 1.5 * inch),
      \<comment> \<open>Grid lines\<close>
      setLineWidth 0.5,
      seq (map (\<lambda>y. line (0.5 * inch) y (width - 0.5 * inch) y)
        [height - 1.5 * inch, height - 2.5 * inch, height - 3.5 * inch,
         height - 4.5 * inch, height - 5.5 * inch, height - 6.5 * inch]),
      \<comment> \<open>Vertical divider\<close>
      line (width / 2) (height - 1.5 * inch) (width / 2) (height - 6.5 * inch),
      \<comment> \<open>Labels and values\<close>
      setFont ''Helvetica'' 8,
      \<comment> \<open>Box a - Employee's SSN\<close>
      drawString (0.6 * inch) (height - 1.35 * inch) ''a Employee's social security number'',
      if_then (\<not> is_blank) [
        setFont ''Helvetica-Bold'' 11,
        if_then low_quality [setFillColor lightgrey],
        drawString (0.6 * inch) (height - 1.7 * inch) employee_ssn,
        setFillColor black],
      \<comment> \<open>Box b - Employer ID\<close>
      setFont ''Helvetica'' 8,
      drawString (0.6 * inch) (height - 2.35 * inch) ''b Employer identification number (EIN)'',
      if_then (\<not> is_blank) [
        setFont ''Helvetica-Bold'' 11,
        drawString (0.6 * inch) (height - 2.7 * inch) ein],
      \<comment> \<open>Box c - Employer name and address\<close>
      setFont ''Helvetica'' 8,
      drawString (0.6 * inch) (height - 3.35 * inch) ''c Employer's name, address, and ZIP code'',
      if_then (\<not> is_blank) [
        setFont ''Helvetica-Bold'' 11,
        if_then low_quality [setFillColor gray],
        drawString (0.6 * inch) (height - 3.7 * inch) employer_name,
        setFillColor black,
        setFont ''Helvetica'' 10,
        drawString (0.6 * inch) (height - 3.95 * inch) ''123 Business Ave'',
        drawString (0.6 * inch) (height - 4.15 * inch) ''Anytown, ST 12345''],
      \<comment> \<open>Box e - Employee name\<close>
      setFont ''Helvetica'' 8,
      drawString (0.6 * inch) (height - 4.85 * inch)
        ''e Employee's first name and initial    Last name'',
      if_then (\<not> is_blank) [
        setFont ''Helvetica-Bold'' 11,
        drawString (0.6 * inch) (height - 5.2 * inch) employee_name],
      \<comment> \<open>Box f - Employee address\<close>
      setFont ''Helvetica'' 8,
      drawString (0.6 * inch) (height - 5.85 * inch) ''f Employee's address and ZIP code'',
      if_then (\<not> is_blank) [
        setFont ''Helvetica'' 10,
        drawString (0.6 * inch) (height - 6.2 * inch) ''456 Home Street, Hometown, ST 67890''],
      \<comment> \<open>Right side - wage boxes; Box 1 - Wages\<close>
      setFont ''Helvetica'' 8,
      drawString (width / 2 + 0.1 * inch) (height - 1.35 * inch)
        ''1 Wages, tips, other compensation'',
      if_then (\<not> is_blank) [
        setFont ''Helvetica-Bold'' 12,
        if_then low_quality [setFillColor lightgrey],
        drawString (width / 2 + 0.1 * inch) (height - 1.7 * inch) (money wages),
        setFillColor black],
      \<comment> \<open>Box 2 - Federal tax withheld\<close>
      setFont ''Helvetica'' 8,
      drawString (width / 2 + 0.1 * inch) (height - 2.35 * inch) ''2 Federal income tax withheld'',
      if_then (\<not> is_blank) [
        setFont ''Helvetica-Bold'' 12,
        drawString (width / 2 + 0.1 * inch) (height - 2.7 * inch)
          (money (fmul wages (lit 22 2)))],
      \<comment> \<open>Box 3 - Social security wages\<close>
      setFont ''Helvetica'' 8,
      drawString (width / 2 + 0.1 * inch) (height - 3.35 * inch) ''3 Social security wages'',
      if_then (\<not> is_blank) [
        setFont ''Helvetica-Bold'' 12,
        drawString (width / 2 + 0.1 * inch) (height - 3.7 * inch) (money wages)],
      \<comment> \<open>Box 4 - Social security tax withheld\<close>
      setFont ''Helvetica'' 8,
      drawString (width / 2 + 0.1 * inch) (height - 4.35 * inch) ''4 Social security tax withheld'',
      if_then (\<not> is_blank) [
        setFont ''Helvetica-Bold'' 12,
        drawString (width / 2 + 0.1 * inch) (height - 4.7 * inch)
          (money (fmul wages (lit 62 3)))],
      \<comment> \<open>Box 5 - Medicare wages\<close>
      setFont ''Helvetica'' 8,
      drawString (width / 2 + 0.1 * inch) (height - 5.35 * inch) ''5 Medicare wages and tips'',
      if_then (\<not> is_blank) [
        setFont ''Helvetica-Bold'' 12,
        drawString (width / 2 + 0.1 * inch) (height - 5.7 * inch) (money wages)],
      \<comment> \<open>Box 6 - Medicare tax withheld\<close>
      setFont ''Helvetica'' 8,
      drawString (width / 2 + 0.1 * inch) (height - 6.35 * inch) ''6 Medicare tax withheld'',
      if_then (\<not> is_blank) [
        setFont ''Helvetica-Bold'' 12,
        drawString (width / 2 + 0.1 * inch) (height - 6.7 * inch)
          (money (fmul wages (lit 145 4)))],
      \<comment> \<open>Footer\<close>
      setFont ''Helvetica'' 8,
      drawString (0.6 * inch) (0.6 * inch) ''Department of the Treasury - Internal Revenue Service'',
      drawString (width - 2.5 * inch) (0.6 * inch) (''Form W-2 ('' @ year @ '')'')
     ] c)"

definition draw_1099nec ::
  "canvas \<Rightarrow> string \<Rightarrow> pyfloat \<Rightarrow> string \<Rightarrow> string \<Rightarrow> string \<Rightarrow> string \<Rightarrow> canvas"
where
  "draw_1099nec c payer_name compensation recipient_name recipient_tin payer_tin year =
    (case letter of (width, height) \<Rightarrow>
     seq [
      \<comment> \<open>Title\<close>
      setFont ''Helvetica-Bold'' 16,
      drawString (1 * inch) (height - 0.75 * inch)
        (''Form 1099-NEC Nonemployee Compensation '' @ year),
      \<comment> \<open>Form border\<close>
      setStrokeColor black,
      setLineWidth 2,
      rect (0.5 * inch) (2 * inch) (width - 1 * inch) (height - 2.5 * inch),
      \<comment> \<open>Payer info box\<close>
      setLineWidth 1,
      rect (0.6 * inch) (height - 3 * inch) (3.5 * inch) (2 * inch),
      setFont ''Helvetica'' 8,
      drawString (0.7 * inch) (height - 1.2 * inch)
        ''PAYER'S name, street address, city or town, state or province,'',
      drawString (0.7 * inch) (height - 1.35 * inch)
        ''country, ZIP or foreign postal code, and telephone no.'',
      setFont ''Helvetica-Bold'' 11,
      drawString (0.7 * inch) (height - 1.7 * inch) payer_name,
      setFont ''Helvetica'' 10,
      drawString (0.7 * inch) (height - 1.95 * inch) ''789 Client Road'',
      drawString (0.7 * inch) (height - 2.15 * inch) ''Business City, ST 11111'',
      \<comment> \<open>Payer TIN\<close>
      setFont ''Helvetica'' 8,
      drawString (0.7 * inch) (height - 2.5 * inch) ''PAYER'S TIN'',
      setFont ''Helvetica-Bold'' 11,
      drawString (0.7 * inch) (height - 2.8 * inch) payer_tin,
      \<comment> \<open>Recipient info\<close>
      setFont ''Helvetica'' 8,
      drawString (0.6 * inch) (height - 3.5 * inch) ''RECIPIENT'S TIN'',
      setFont ''Helvetica-Bold'' 11,
      drawString (0.6 * inch) (height - 3.8 * inch) recipient_tin,
      setFont ''Helvetica'' 8,
      drawString (0.6 * inch) (height - 4.2 * inch) ''RECIPIENT'S name'',
      setFont ''Helvetica-Bold'' 11,
      drawString (0.6 * inch) (height - 4.5 * inch) recipient_name,
      setFont ''Helvetica'' 10,
      drawString (0.6 * inch) (height - 4.9 * inch) ''321 Freelance Lane'',
      drawString (0.6 * inch) (height - 5.1 * inch) ''Worktown, ST 22222'',
      \<comment> \<open>Box 1 - Nonemployee compensation (the main one)\<close>
      setLineWidth 1,
      rect (width / 2 + 0.5 * inch) (height - 2.5 * inch) (2.5 * inch) (1.2 * inch),
      setFont ''Helvetica'' 8,
      drawString (width / 2 + 0.6 * inch) (height - 1.5 * inch) ''1 Nonemployee compensation'',
      setFont ''Helvetica-Bold'' 14,
      drawString (width / 2 + 0.6 * inch) (height - 2 * inch) (money compensation),
      \<comment> \<open>Box 4 - Federal tax withheld\<close>
      rect (width / 2 + 0.5 * inch) (height - 4 * inch) (2.5 * inch) (1.2 * inch),
      setFont ''Helvetica'' 8,
      drawString (width / 2 + 0.6 * inch) (height - 3 * inch) ''4 Federal income tax withheld'',
      setFont ''Helvetica-Bold'' 12,
      drawString (width / 2 + 0.6 * inch) (height - 3.5 * inch) ''$0.00'',
      \<comment> \<open>Footer\<close>
      setFont ''Helvetica'' 8,
      drawString (0.6 * inch) (1.6 * inch) (''Form 1099-NEC (Rev. 1-'' @ year @ '')''),
      drawString (0.6 * inch) (1.4 * inch)
        ''Department of the Treasury - Internal Revenue Service''
     ] c)"

definition draw_1099int ::
  "canvas \<Rightarrow> string \<Rightarrow> pyfloat \<Rightarrow> string \<Rightarrow> string \<Rightarrow> string \<Rightarrow> string \<Rightarrow> canvas"
where
  "draw_1099int c payer_name interest recipient_name recipient_tin payer_tin year =
    (case letter of (width, height) \<Rightarrow>
     seq [
      \<comment> \<open>Title\<close>
      setFont ''Helvetica-Bold'' 16,
      drawString (1 * inch) (height - 0.75 * inch) (''Form 1099-INT Interest Income '' @ year),
      \<comment> \<open>Form border\<close>
      setStrokeColor black,
      setLineWidth 2,
      rect (0.5 * inch) (2 * inch) (width - 1 * inch) (height - 2.5 * inch),
      \<comment> \<open>Payer info\<close>
      setLineWidth 1,
      rect (0.6 * inch) (height - 3 * inch) (3.5 * inch) (2 * inch),
      setFont ''Helvetica'' 8,
      drawString (0.7 * inch) (height - 1.2 * inch)
        ''PAYER'S name, street address, city, state, ZIP code'',
      setFont ''Helvetica-Bold'' 11,
      drawString (0.7 * inch) (height - 1.6 * inch) payer_name,
      setFont ''Helvetica'' 10,
      drawString (0.7 * inch) (height - 1.85 * inch) ''100 Finance Boulevard'',
      drawString (0.7 * inch) (height - 2.05 * inch) ''Banking City, ST 33333'',
      setFont ''Helvetica'' 8,
      drawString (0.7 * inch) (height - 2.5 * inch) ''PAYER'S TIN'',
      setFont ''Helvetica-Bold'' 11,
      drawString (0.7 * inch) (height - 2.8 * inch) payer_tin,
      \<comment> \<open>Recipient\<close>
      setFont ''Helvetica'' 8,
      drawString (0.6 * inch) (height - 3.5 * inch) ''RECIPIENT'S TIN'',
      setFont ''Helvetica-Bold'' 11,
      drawString (0.6 * inch) (height - 3.8 * inch) recipient_tin,
      setFont ''Helvetica'' 8,
      drawString (0.6 * inch) (height - 4.2 * inch) ''RECIPIENT'S name'',
      setFont ''Helvetica-Bold'' 11,
      drawString (0.6 * inch) (height - 4.5 * inch) recipient_name,
      \<comment> \<open>Box 1 - Interest income\<close>
      setLineWidth 1,
      rect (width / 2 + 0.5 * inch) (height - 2.5 * inch) (2.5 * inch) (1.2 * inch),
      setFont ''Helvetica'' 8,
      drawString (width / 2 + 0.6 * inch) (height - 1.5 * inch) ''1 Interest income'',
      setFont ''Helvetica-Bold'' 14,
      drawString (width / 2 + 0.6 * inch) (height - 2 * inch) (money interest),
      \<comment> \<open>Box 2 - Early withdrawal penalty\<close>
      rect (width / 2 + 0.5 * inch) (height - 4 * inch) (2.5 * inch) (1.2 * inch),
      setFont ''Helvetica'' 8,
      drawString (width / 2 + 0.6 * inch) (height - 3 * inch) ''2 Early withdrawal penalty'',
      setFont ''Helvetica-Bold'' 12,
      drawString (width / 2 + 0.6 * inch) (height - 3.5 * inch) ''$0.00'',
      \<comment> \<open>Footer\<close>
      setFont ''Helvetica'' 8,
      drawString (0.6 * inch) (1.6 * inch) (''Form 1099-INT ('' @ year @ '')''),
      drawString (0.6 * inch) (1.4 * inch)
        ''Department of the Treasury - Internal Revenue Service''
     ] c)"

definition draw_1099div ::
  "canvas \<Rightarrow> string \<Rightarrow> pyfloat \<Rightarrow> string \<Rightarrow> string \<Rightarrow> string \<Rightarrow> string \<Rightarrow> canvas"
where
  "draw_1099div c payer_name dividends recipient_name recipient_tin payer_tin year =
    (case letter of (width, height) \<Rightarrow>
     seq [
      \<comment> \<open>Title\<close>
      setFont ''Helvetica-Bold'' 16,
      drawString (1 * inch) (height - 0.75 * inch)
        (''Form 1099-DIV Dividends and Distributions '' @ year),
      \<comment> \<open>Form border\<close>
      setStrokeColor black,
      setLineWidth 2,
      rect (0.5 * inch) (2 * inch) (width - 1 * inch) (height - 2.5 * inch),
      \<comment> \<open>Payer info\<close>
      setLineWidth 1,
      rect (0.6 * inch) (height - 3 * inch) (3.5 * inch) (2 * inch),
      setFont ''Helvetica'' 8,
      drawString (0.7 * inch) (height - 1.2 * inch)
        ''PAYER'S name, street address, city, state, ZIP code'',
      setFont ''Helvetica-Bold'' 11,
      drawString (0.7 * inch) (height - 1.6 * inch) payer_name,
      setFont ''Helvetica'' 10,
      drawString (0.7 * inch) (height - 1.85 * inch) ''500 Investment Plaza'',
      drawString (0.7 * inch) (height - 2.05 * inch) ''Wall Street, NY 10001'',
      setFont ''Helvetica'' 8,
      drawString (0.7 * inch) (height - 2.5 * inch) ''PAYER'S TIN'',
      setFont ''Helvetica-Bold'' 11,
      drawString (0.7 * inch) (height - 2.8 * inch) payer_tin,
      \<comment> \<open>Recipient\<close>
      setFont ''Helvetica'' 8,
      drawString (0.6 * inch) (height - 3.5 * inch) ''RECIPIENT'S TIN'',
      setFont ''Helvetica-Bold'' 11,
      drawString (0.6 * inch) (height - 3.8 * inch) recipient_tin,
      setFont ''Helvetica'' 8,
      drawString (0.6 * inch) (height - 4.2 * inch) ''RECIPIENT'S name'',
      setFont ''Helvetica-Bold'' 11,
      drawString (0.6 * inch) (height - 4.5 * inch) recipient_name,
      \<comment> \<open>Box 1a - Total ordinary dividends\<close>
      setLineWidth 1,
      rect (width / 2 + 0.5 * inch) (height - 2.5 * inch) (2.5 * inch) (1.2 * inch),
      setFont ''Helvetica'' 8,
      drawString (width / 2 + 0.6 * inch) (height - 1.5 * inch) ''1a Total ordinary dividends'',
      setFont ''Helvetica-Bold'' 14,
      drawString (width / 2 + 0.6 * inch) (height - 2 * inch) (money dividends),
      \<comment> \<open>Box 1b - Qualified dividends\<close>
      rect (width / 2 + 0.5 * inch) (height - 4 * inch) (2.5 * inch) (1.2 * inch),
      setFont ''Helvetica'' 8,
      drawString (width / 2 + 0.6 * inch) (height - 3 * inch) ''1b Qualified dividends'',
      setFont ''Helvetica-Bold'' 12,
      drawString (width / 2 + 0.6 * inch) (height - 3.5 * inch)
        (money (fmul dividends (lit 8 1))),
      \<comment> \<open>Footer\<close>
      setFont ''Helvetica'' 8,
      drawString (0.6 * inch) (1.6 * inch) (''Form 1099-DIV ('' @ year @ '')''),
      drawString (0.6 * inch) (1.4 * inch)
        ''Department of the Treasury - Internal Revenue Service''
     ] c)"

definition draw_1098 ::
  "canvas \<Rightarrow> string \<Rightarrow> pyfloat \<Rightarrow> string \<Rightarrow> string \<Rightarrow> string \<Rightarrow> string \<Rightarrow> canvas"
where
  "draw_1098 c lender_name interest borrower_name borrower_tin lender_tin year =
    (case letter of (width, height) \<Rightarrow>
     seq [
      \<comment> \<open>Title\<close>
      setFont ''Helvetica-Bold'' 16,
      drawString (1 * inch) (height - 0.75 * inch)
        (''Form 1098 Mortgage Interest Statement '' @ year),
      \<comment> \<open>Form border\<close>
      setStrokeColor black,
      setLineWidth 2,
      rect (0.5 * inch) (2 * inch) (width - 1 * inch) (height - 2.5 * inch),
      \<comment> \<open>Lender info\<close>
      setLineWidth 1,
      rect (0.6 * inch) (height - 3 * inch) (3.5 * inch) (2 * inch),
      setFont ''Helvetica'' 8,
      drawString (0.7 * inch) (height - 1.2 * inch)
        ''RECIPIENT'S/LENDER'S name, address, and telephone number'',
      setFont ''Helvetica-Bold'' 11,
      drawString (0.7 * inch) (height - 1.6 * inch) lender_name,
      setFont ''Helvetica'' 10,
      drawString (0.7 * inch) (height - 1.85 * inch) ''200 Mortgage Way'',
      drawString (0.7 * inch) (height - 2.05 * inch) ''Lending City, ST 44444'',
      setFont ''Helvetica'' 8,
      drawString (0.7 * inch) (height - 2.5 * inch) ''RECIPIENT'S TIN'',
      setFont ''Helvetica-Bold'' 11,
      drawString (0.7 * inch) (height - 2.8 * inch) lender_tin,
      \<comment> \<open>Borrower (Payer)\<close>
      setFont ''Helvetica'' 8,
      drawString (0.6 * inch) (height - 3.5 * inch) ''PAYER'S/BORROWER'S TIN'',
      setFont ''Helvetica-Bold'' 11,
      drawString (0.6 * inch) (height - 3.8 * inch) borrower_tin,
      setFont ''Helvetica'' 8,
      drawString (0.6 * inch) (height - 4.2 * inch) ''PAYER'S/BORROWER'S name'',
      setFont ''Helvetica-Bold'' 11,
      drawString (0.6 * inch) (height - 4.5 * inch) borrower_name,
      setFont ''Helvetica'' 10,
      drawString (0.6 * inch) (height - 4.9 * inch) ''456 Home Street'',
      drawString (0.6 * inch) (height - 5.1 * inch) ''Hometown, ST 67890'',
      \<comment> \<open>Box 1 - Mortgage interest received\<close>
      setLineWidth 1,
      rect (width / 2 + 0.5 * inch) (height - 2.5 * inch) (2.5 * inch) (1.2 * inch),
      setFont ''Helvetica'' 8,
      drawString (width / 2 + 0.6 * inch) (height - 1.5 * inch)
        ''1 Mortgage interest received from payer(s)/borrower(s)'',
      setFont ''Helvetica-Bold'' 14,
      drawString (width / 2 + 0.6 * inch) (height - 2 * inch) (money interest),
      \<comment> \<open>Box 2 - Outstanding mortgage principal\<close>
      rect (width / 2 + 0.5 * inch) (height - 4 * inch) (2.5 * inch) (1.2 * inch),
      setFont ''Helvetica'' 8,
      drawString (width / 2 + 0.6 * inch) (height - 3 * inch) ''2 Outstanding mortgage principal'',
      setFont ''Helvetica-Bold'' 12,
      drawString (width / 2 + 0.6 * inch) (height - 3.5 * inch)
        (money (fmul interest (lit 25 0))),
      \<comment> \<open>Footer\<close>
      setFont ''Helvetica'' 8,
      drawString (0.6 * inch) (1.6 * inch) (''Form 1098 ('' @ year @ '')''),
      drawString (0.6 * inch) (1.4 * inch)
        ''Department of the Treasury - Internal Revenue Service''
     ] c)"

section \<open>The driver\<close>

text \<open>
  The script writes files, prints progress lines and returns the manifest. The world it acts
  on is the set of directories, the content of the files (a saved document is the list of
  its pages) and the lines printed so far. File-system operations are taken to succeed: the
  script handles no failure of them.
\<close>

record world =
  dirs :: "string set"
  files :: "string \<rightharpoonup> op list list"
  stdout :: "string list"

definition OUTPUT_DIR :: string where
  "OUTPUT_DIR = ''docs''"

text \<open>\<^verbatim>\<open>os.makedirs(path, exist_ok=True)\<close>, \<^verbatim>\<open>c.save()\<close> and \<^verbatim>\<open>print(msg)\<close>.\<close>

definition makedirs :: "string \<Rightarrow> world \<Rightarrow> world" where
  "makedirs path w = w\<lparr>dirs := insert path (dirs w)\<rparr>"

definition save :: "canvas \<Rightarrow> world \<Rightarrow> world" where
  "save c w = w\<lparr>files := (files w)(file_name c \<mapsto> document c)\<rparr>"

definition print :: "string \<Rightarrow> world \<Rightarrow> world" where
  "print msg w = w\<lparr>stdout := stdout w @ [msg]\<rparr>"

text \<open>
  The values of a manifest entry, and an entry: a Python \<^verbatim>\<open>dict\<close> literal, its keys in
  the order they are written.
\<close>

datatype pyval = Str string | Num pyfloat | Bool bool

type_synonym entry = "(string \<times> pyval) list"

text \<open>
  A call of a layout routine, with every argument of the routine. The driver passes the
  counterparty name and the amount, and for the W-2 the two flags where it sets them; the
  other parameters take the defaults of the routine's \<^verbatim>\<open>def\<close> line.
\<close>

datatype request =
    W2 string pyfloat string string string string bool bool
  | F1099NEC string pyfloat string string string string
  | F1099INT string pyfloat string string string string
  | F1099DIV string pyfloat string string string string
  | F1098 string pyfloat string string string string

fun draw :: "request \<Rightarrow> canvas \<Rightarrow> canvas" where
  "draw (W2 employer_name wages employee_name employee_ssn ein year is_blank low_quality) c =
     draw_w2 c employer_name wages employee_name employee_ssn ein year is_blank low_quality"
| "draw (F1099NEC payer_name compensation recipient_name recipient_tin payer_tin year) c =
     draw_1099nec c payer_name compensation recipient_name recipient_tin payer_tin year"
| "draw (F1099INT payer_name interest recipient_name recipient_tin payer_tin year) c =
     draw_1099int c payer_name interest recipient_name recipient_tin payer_tin year"
| "draw (F1099DIV payer_name dividends recipient_name recipient_tin payer_tin year) c =
     draw_1099div c payer_name dividends recipient_name recipient_tin payer_tin year"
| "draw (F1098 lender_name interest borrower_name borrower_tin lender_tin year) c =
     draw_1098 c lender_name interest borrower_name borrower_tin lender_tin year"

definition call_w2 :: "string \<Rightarrow> pyfloat \<Rightarrow> bool \<Rightarrow> bool \<Rightarrow> request" where
  "call_w2 employer_name wages is_blank low_quality =
     W2 employer_name wages ''John Q. Taxpayer'' ''XXX-XX-1234'' ''12-3456789'' ''2024''
       is_blank low_quality"

definition call_1099nec :: "string \<Rightarrow> pyfloat \<Rightarrow> request" where
  "call_1099nec payer_name compensation =
     F1099NEC payer_name compensation ''Jane D. Contractor'' ''XXX-XX-5678'' ''98-7654321'' ''2024''"

definition call_1099int :: "string \<Rightarrow> pyfloat \<Rightarrow> request" where
  "call_1099int payer_name interest =
     F1099INT payer_name interest ''John Q. Taxpayer'' ''XXX-XX-1234'' ''11-2233445'' ''2024''"

definition call_1099div :: "string \<Rightarrow> pyfloat \<Rightarrow> request" where
  "call_1099div payer_name dividends =
     F1099DIV payer_name dividends ''John Q. Taxpayer'' ''XXX-XX-1234'' ''55-6677889'' ''2024''"

definition call_1098 :: "string \<Rightarrow> pyfloat \<Rightarrow> request" where
  "call_1098 lender_name interest =
     F1098 lender_name interest ''John Q. Taxpayer'' ''XXX-XX-1234'' ''77-8899001'' ''2024''"

text \<open>
  One block of \<^verbatim>\<open>main\<close>: the five statements that every one of its ten blocks consists of.
  The entry appended to \<^verbatim>\<open>documents\<close> starts with \<^verbatim>\<open>"filename": filename\<close>, the variable
  that also names the file; \<open>others\<close> are the other keys of the literal. The first
  character of the progress line is U+2713, in UTF-8.
\<close>

definition generate ::
  "string \<Rightarrow> request \<Rightarrow> entry \<Rightarrow> world \<times> entry list \<Rightarrow> world \<times> entry list"
where
  "generate filename req others st =
     (case st of (w, documents) \<Rightarrow>
        (seq [
           save (draw req (Canvas (OUTPUT_DIR @ ''/'' @ filename) letter)),
           print ([CHR 0xE2, CHR 0x9C, CHR 0x93] @ '' Created '' @ filename)] w,
         documents @ [(''filename'', Str filename) # others]))"

text \<open>
  The ten blocks of \<^verbatim>\<open>main\<close> in the order of the source: the file name, the call and the
  remaining keys of the manifest entry. The blank template is called with the integer \<^verbatim>\<open>0\<close>
  for the wages, which the routine does not read when \<^verbatim>\<open>is_blank\<close> is set; it is the float
  zero here.
\<close>

definition blocks :: "(string \<times> request \<times> entry) list" where
  "blocks = [
     \<comment> \<open>1. W-2 Acme Corp\<close>
     (''w2-acme-2024.pdf'', call_w2 ''Acme Corp'' (lit 7543200 2) False False,
      [(''type'', Str ''W-2''), (''employer'', Str ''Acme Corp''), (''wages'', Num (lit 7543200 2))]),
     \<comment> \<open>2. W-2 TechStart Inc\<close>
     (''w2-techstart-2024.pdf'', call_w2 ''TechStart Inc'' (lit 9215000 2) False False,
      [(''type'', Str ''W-2''), (''employer'', Str ''TechStart Inc''),
       (''wages'', Num (lit 9215000 2))]),
     \<comment> \<open>3. W-2 GlobalCo LLC\<close>
     (''w2-globalco-2024.pdf'', call_w2 ''GlobalCo LLC'' (lit 5500000 2) False False,
      [(''type'', Str ''W-2''), (''employer'', Str ''GlobalCo LLC''),
       (''wages'', Num (lit 5500000 2))]),
     \<comment> \<open>4. 1099-NEC Consulting Partners\<close>
     (''1099nec-consult-2024.pdf'', call_1099nec ''Consulting Partners'' (lit 4500000 2),
      [(''type'', Str ''1099-NEC''), (''payer'', Str ''Consulting Partners''),
       (''compensation'', Num (lit 4500000 2))]),
     \<comment> \<open>5. 1099-NEC Freelance Hub\<close>
     (''1099nec-freelance-2024.pdf'', call_1099nec ''Freelance Hub'' (lit 2850000 2),
      [(''type'', Str ''1099-NEC''), (''payer'', Str ''Freelance Hub''),
       (''compensation'', Num (lit 2850000 2))]),
     \<comment> \<open>6. 1099-INT Big Bank\<close>
     (''1099int-bigbank-2024.pdf'', call_1099int ''Big Bank'' (lit 123400 2),
      [(''type'', Str ''1099-INT''), (''payer'', Str ''Big Bank''),
       (''interest'', Num (lit 123400 2))]),
     \<comment> \<open>7. 1099-DIV Investment Corp\<close>
     (''1099div-invest-2024.pdf'', call_1099div ''Investment Corp'' (lit 567800 2),
      [(''type'', Str ''1099-DIV''), (''payer'', Str ''Investment Corp''),
       (''dividends'', Num (lit 567800 2))]),
     \<comment> \<open>8. 1098 Home Loans Inc\<close>
     (''1098-mortgage-2024.pdf'', call_1098 ''Home Loans Inc'' (lit 1234500 2),
      [(''type'', Str ''1098''), (''lender'', Str ''Home Loans Inc''),
       (''interest'', Num (lit 1234500 2))]),
     \<comment> \<open>9. Blank W-2 template (edge case)\<close>
     (''w2-blank-template.pdf'', call_w2 [] (lit 0 0) True False,
      [(''type'', Str ''W-2''), (''isBlank'', Bool True)]),
     \<comment> \<open>10. Low quality W-2 (edge case)\<close>
     (''w2-lowquality-2024.pdf'', call_w2 ''Faded Corp'' (lit 4875000 2) False True,
      [(''type'', Str ''W-2''), (''employer'', Str ''Faded Corp''),
       (''wages'', Num (lit 4875000 2)), (''isLowQuality'', Bool True)])]"

text \<open>
  \<^verbatim>\<open>main\<close>: the output directory, the ten blocks, the summary line (a newline and U+2705
  before the count) and the manifest as the result.
\<close>

definition main :: "world \<Rightarrow> world \<times> entry list" where
  "main w0 =
     (case seq (map (\<lambda>(filename, req, others). generate filename req others) blocks)
             (makedirs OUTPUT_DIR w0, [])
      of (w, documents) \<Rightarrow>
        (print ([CHR 0x0A, CHR 0xE2, CHR 0x9C, CHR 0x85] @ '' Generated '' @
                decimal (length documents) @ '' tax documents in '' @ OUTPUT_DIR @ ''/'') w,
         documents))"

section \<open>Reading a page\<close>

text \<open>
  What the statements below observe of a page. A field caption is a text in the small
  caption style of the routines, Helvetica 8; the value texts of a field are the texts drawn
  after its caption, up to the next text in caption style.
\<close>

fun is_text :: "op \<Rightarrow> bool" where
  "is_text (DrawString x y font sz col t) = True"
| "is_text _ = False"

fun text_of :: "op \<Rightarrow> string" where
  "text_of (DrawString x y font sz col t) = t"
| "text_of _ = []"

fun fill_of :: "op \<Rightarrow> color" where
  "fill_of (DrawString x y font sz col t) = col"
| "fill_of (Rect x y w h col lw) = col"
| "fill_of (Line x1 y1 x2 y2 col lw) = col"

fun is_caption :: "op \<Rightarrow> bool" where
  "is_caption (DrawString x y font sz col t) = (font = ''Helvetica'' \<and> sz = 8)"
| "is_caption _ = False"

fun after_caption :: "string \<Rightarrow> op list \<Rightarrow> op list" where
  "after_caption cap [] = []"
| "after_caption cap (a # as) =
     (if is_caption a \<and> text_of a = cap then as else after_caption cap as)"

definition field_values :: "op list \<Rightarrow> string \<Rightarrow> string list" where
  "field_values ops cap =
     map text_of (takeWhile (\<lambda>a. \<not> is_caption a) (filter is_text (after_caption cap ops)))"

text \<open>The fill colours of the value texts of a field.\<close>

definition field_fills :: "op list \<Rightarrow> string \<Rightarrow> color list" where
  "field_fills ops cap =
     map fill_of (takeWhile (\<lambda>a. \<not> is_caption a) (filter is_text (after_caption cap ops)))"

text \<open>The texts that are values: every text after the title that is not in caption style.\<close>

definition value_texts :: "op list \<Rightarrow> op list" where
  "value_texts ops = filter (\<lambda>a. \<not> is_caption a) (tl (filter is_text ops))"

text \<open>
  Lightness of a colour (the mean of its largest and its smallest component), and the texts
  of a page that are not drawn in black, each with its fill colour.
\<close>

fun lightness :: "color \<Rightarrow> rat" where
  "lightness (Color r g b) = (max r (max g b) + min r (min g b)) / 2"

definition lighter :: "color \<Rightarrow> color \<Rightarrow> bool" where
  "lighter a b = (lightness b < lightness a)"

definition lightened :: "op list \<Rightarrow> (string \<times> color) list" where
  "lightened ops =
     map (\<lambda>a. (text_of a, fill_of a)) (filter (\<lambda>a. is_text a \<and> fill_of a \<noteq> black) ops)"

text \<open>Where an operation draws: the coordinates it is called with.\<close>

fun geometry :: "op \<Rightarrow> rat list" where
  "geometry (DrawString x y font sz col t) = [x, y]"
| "geometry (Rect x y w h col lw) = [x, y, w, h]"
| "geometry (Line x1 y1 x2 y2 col lw) = [x1, y1, x2, y2]"

subsection \<open>The contract of a layout routine\<close>

text \<open>
  The contract in the words of the specification: a page starts with a title line and an
  outer border; its other texts are field boxes inside the border, followed by a footer
  below the border. In a field box the caption comes first (one or more lines in the small
  caption style), then the value (one or more texts in a larger style), and a blank
  document has the captions only.
\<close>

fun is_title :: "op \<Rightarrow> bool" where
  "is_title (DrawString x y font sz col t) =
     (font = ''Helvetica-Bold'' \<and> sz = 16 \<and> take 5 t = ''Form '')"
| "is_title _ = False"

fun is_border :: "op \<Rightarrow> bool" where
  "is_border (Rect x y w h col lw) = (col = black \<and> lw = 2)"
| "is_border _ = False"

fun bottom_of :: "op \<Rightarrow> rat" where
  "bottom_of (DrawString x y font sz col t) = y"
| "bottom_of (Rect x y w h col lw) = y"
| "bottom_of (Line x1 y1 x2 y2 col lw) = min y1 y2"

fun is_value :: "op \<Rightarrow> bool" where
  "is_value (DrawString x y font sz col t) = (8 < sz)"
| "is_value _ = False"

text \<open>
  The field boxes, in the order they are drawn: \<open>boxes_ok blank in_caption in_value\<close>, the
  two flags telling whether the text before was a caption or a value. A value needs a
  caption or a value before it, a blank page has no value, and the last box of a page that
  is not blank ends with a value.
\<close>

fun boxes_ok :: "bool \<Rightarrow> bool \<Rightarrow> bool \<Rightarrow> op list \<Rightarrow> bool" where
  "boxes_ok blank in_caption in_value [] = (if blank then in_caption else in_value)"
| "boxes_ok blank in_caption in_value (a # as) =
     (if is_caption a then boxes_ok blank True False as
      else if is_value a
        then \<not> blank \<and> (in_caption \<or> in_value) \<and> boxes_ok blank False True as
      else False)"

definition form_contract :: "bool \<Rightarrow> op list \<Rightarrow> bool" where
  "form_contract blank ops =
     (case ops of
        title # border # rest \<Rightarrow>
          is_title title \<and> is_border border \<and>
          filter is_text rest =
            filter (\<lambda>a. bottom_of border \<le> bottom_of a) (filter is_text rest) @
            filter (\<lambda>a. bottom_of a < bottom_of border) (filter is_text rest) \<and>
          boxes_ok blank False False
            (filter (\<lambda>a. bottom_of border \<le> bottom_of a) (filter is_text rest)) \<and>
          filter (\<lambda>a. bottom_of a < bottom_of border) (filter is_text rest) \<noteq> [] \<and>
          list_all is_caption (filter (\<lambda>a. bottom_of a < bottom_of border) (filter is_text rest))
      | _ \<Rightarrow> False)"

subsection \<open>Requests and manifest entries\<close>

fun req_is_blank :: "request \<Rightarrow> bool" where
  "req_is_blank (W2 employer_name wages employee_name employee_ssn ein year is_blank low_quality) =
     is_blank"
| "req_is_blank _ = False"

fun req_low_quality :: "request \<Rightarrow> bool" where
  "req_low_quality (W2 employer_name wages employee_name employee_ssn ein year is_blank low_quality) =
     low_quality"
| "req_low_quality _ = False"

fun primary_amount :: "request \<Rightarrow> pyfloat" where
  "primary_amount (W2 employer_name wages employee_name employee_ssn ein year is_blank low_quality) =
     wages"
| "primary_amount (F1099NEC payer_name compensation recipient_name recipient_tin payer_tin year) =
     compensation"
| "primary_amount (F1099INT payer_name interest recipient_name recipient_tin payer_tin year) =
     interest"
| "primary_amount (F1099DIV payer_name dividends recipient_name recipient_tin payer_tin year) =
     dividends"
| "primary_amount (F1098 lender_name interest borrower_name borrower_tin lender_tin year) =
     interest"

fun counterparty :: "request \<Rightarrow> string" where
  "counterparty (W2 employer_name wages employee_name employee_ssn ein year is_blank low_quality) =
     employer_name"
| "counterparty (F1099NEC payer_name compensation recipient_name recipient_tin payer_tin year) =
     payer_name"
| "counterparty (F1099INT payer_name interest recipient_name recipient_tin payer_tin year) =
     payer_name"
| "counterparty (F1099DIV payer_name dividends recipient_name recipient_tin payer_tin year) =
     payer_name"
| "counterparty (F1098 lender_name interest borrower_name borrower_tin lender_tin year) =
     lender_name"

fun req_year :: "request \<Rightarrow> string" where
  "req_year (W2 employer_name wages employee_name employee_ssn ein year is_blank low_quality) =
     year"
| "req_year (F1099NEC payer_name compensation recipient_name recipient_tin payer_tin year) = year"
| "req_year (F1099INT payer_name interest recipient_name recipient_tin payer_tin year) = year"
| "req_year (F1099DIV payer_name dividends recipient_name recipient_tin payer_tin year) = year"
| "req_year (F1098 lender_name interest borrower_name borrower_tin lender_tin year) = year"

text \<open>The keys of a manifest entry that hold a monetary amount, and the file name of an entry.\<close>

definition monetary_fields :: "entry \<Rightarrow> entry" where
  "monetary_fields e =
     filter (\<lambda>(k, v). k \<in> set [''wages'', ''compensation'', ''interest'', ''dividends'']) e"

definition entry_filename :: "entry \<Rightarrow> string" where
  "entry_filename e = (case map_of e ''filename'' of Some (Str s) \<Rightarrow> s | _ \<Rightarrow> [])"

subsection \<open>File name patterns\<close>

text \<open>
  The pattern \<^verbatim>\<open><type-slug>-<counterparty-slug>-<year>.pdf\<close>. The type slug is the name of the
  form type in lower case without the hyphen. A slug of the counterparty is read in the
  widest sense that still ties it to the counterparty: a non-empty word whose characters
  occur, in this order, among the lower-cased characters of the counterparty's name.
\<close>

fun type_slug :: "request \<Rightarrow> string" where
  "type_slug (W2 employer_name wages employee_name employee_ssn ein year is_blank low_quality) =
     ''w2''"
| "type_slug (F1099NEC payer_name compensation recipient_name recipient_tin payer_tin year) =
     ''1099nec''"
| "type_slug (F1099INT payer_name interest recipient_name recipient_tin payer_tin year) =
     ''1099int''"
| "type_slug (F1099DIV payer_name dividends recipient_name recipient_tin payer_tin year) =
     ''1099div''"
| "type_slug (F1098 lender_name interest borrower_name borrower_tin lender_tin year) = ''1098''"

definition lower :: "char \<Rightarrow> char" where
  "lower c =
     (case map_of (zip ''ABCDEFGHIJKLMNOPQRSTUVWXYZ'' ''abcdefghijklmnopqrstuvwxyz'') c of
        Some l \<Rightarrow> l
      | None \<Rightarrow> c)"

fun is_subseq :: "string \<Rightarrow> string \<Rightarrow> bool" where
  "is_subseq [] ys = True"
| "is_subseq (x # xs) [] = False"
| "is_subseq (x # xs) (y # ys) = (if x = y then is_subseq xs ys else is_subseq (x # xs) ys)"

definition slug_of :: "string \<Rightarrow> string \<Rightarrow> bool" where
  "slug_of s name = (s \<noteq> [] \<and> is_subseq s (map lower name))"

definition strip_prefix :: "string \<Rightarrow> string \<Rightarrow> string option" where
  "strip_prefix p s = (if take (length p) s = p then Some (drop (length p) s) else None)"

definition strip_suffix :: "string \<Rightarrow> string \<Rightarrow> string option" where
  "strip_suffix p s =
     (if length p \<le> length s \<and> drop (length s - length p) s = p
      then Some (take (length s - length p) s) else None)"

text \<open>
  The word between the type slug and the year of a file name, when the name has the shape
  \<^verbatim>\<open><type-slug>-<word>-<year>.pdf\<close>.
\<close>

definition label_of :: "string \<Rightarrow> request \<Rightarrow> string option" where
  "label_of filename req =
     (case strip_prefix (type_slug req @ ''-'') filename of
        None \<Rightarrow> None
      | Some r \<Rightarrow> strip_suffix (''-'' @ req_year req @ ''.pdf'') r)"

text \<open>The pattern as the specification states it, for one block of the driver.\<close>

definition stated_pattern :: "string \<times> request \<times> entry \<Rightarrow> bool" where
  "stated_pattern b =
     (case b of (filename, req, others) \<Rightarrow>
        if req_is_blank req then filename = type_slug req @ ''-blank-template.pdf''
        else if req_low_quality req
          then filename = type_slug req @ ''-lowquality-'' @ req_year req @ ''.pdf''
        else (case label_of filename req of
                None \<Rightarrow> False
              | Some s \<Rightarrow> slug_of s (counterparty req)))"

text \<open>
  The pattern that the file names of the driver have: the word of a regular file name is
  a slug of the counterparty, or the word \<^verbatim>\<open>mortgage\<close> for the 1098.
\<close>

definition written_pattern :: "string \<times> request \<times> entry \<Rightarrow> bool" where
  "written_pattern b =
     (case b of (filename, req, others) \<Rightarrow>
        if req_is_blank req then filename = type_slug req @ ''-blank-template.pdf''
        else if req_low_quality req
          then filename = type_slug req @ ''-lowquality-'' @ req_year req @ ''.pdf''
        else (case label_of filename req of
                None \<Rightarrow> False
              | Some s \<Rightarrow>
                  slug_of s (counterparty req) \<or>
                  (type_slug req = ''1098'' \<and> s = ''mortgage'')))"

text \<open>
  The path of the file that a block of \<^verbatim>\<open>main\<close> writes, and the page a call draws on the
  fresh canvas of that block.
\<close>

definition path_of :: "string \<Rightarrow> string" where
  "path_of filename = OUTPUT_DIR @ ''/'' @ filename"

definition page_of :: "string \<Rightarrow> request \<Rightarrow> op list" where
  "page_of filename req = code (draw req (Canvas (path_of filename) letter))"

section \<open>Properties\<close>

lemmas prim_simps = setFont_def setFillColor_def setStrokeColor_def setLineWidth_def
  drawString_def rect_def line_def if_then_def

lemmas canvas_simps = prim_simps Canvas_def letter_def

lemmas float_simps = lit_def round_ratio_def round_to_def pack_def floor_log2_def
  log2_adjust_def round_half_even_def ties_even_def bitlen.simps decimal.simps thousands_def
  fixed2_def money_def

subsection \<open>What a routine leaves alone, and what a run of the driver does\<close>

lemma file_name_draw_w2:
  "file_name (draw_w2 c en w emp ssn ein yr b lq) = file_name c"
  by (cases b; cases lq) (simp_all add: draw_w2_def prim_simps split_beta)

lemma file_name_draw: "file_name (draw req c) = file_name c"
  by (cases req)
     (simp_all add: file_name_draw_w2 draw_1099nec_def draw_1099int_def draw_1099div_def
        draw_1098_def prim_simps split_beta)

lemma pages_draw_w2:
  "pages (draw_w2 c en w emp ssn ein yr b lq) = pages c"
  by (cases b; cases lq) (simp_all add: draw_w2_def prim_simps split_beta)

lemma pages_draw: "pages (draw req c) = pages c"
  by (cases req)
     (simp_all add: pages_draw_w2 draw_1099nec_def draw_1099int_def draw_1099div_def
        draw_1098_def prim_simps split_beta)

lemma code_draw_w2_nonempty:
  "code (draw_w2 c en w emp ssn ein yr b lq) \<noteq> []"
  by (cases b; cases lq) (simp_all add: draw_w2_def prim_simps split_beta)

lemma code_draw_nonempty: "code (draw req c) \<noteq> []"
  by (cases req)
     (simp_all add: code_draw_w2_nonempty draw_1099nec_def draw_1099int_def draw_1099div_def
        draw_1098_def prim_simps split_beta)

lemma document_draw: "document (draw req (Canvas f ps)) = [code (draw req (Canvas f ps))]"
  by (simp add: document_def showPage_def code_draw_nonempty pages_draw) (simp add: Canvas_def)

lemma generate_eq:
  "generate filename req others (w, ds) =
     (w\<lparr>files := (files w)(path_of filename \<mapsto> [page_of filename req]),
        stdout := stdout w @ [[CHR 0xE2, CHR 0x9C, CHR 0x93] @ '' Created '' @ filename]\<rparr>,
      ds @ [(''filename'', Str filename) # others])"
  by (simp add: generate_def save_def print_def file_name_draw document_draw path_of_def
        page_of_def) (simp add: Canvas_def)

lemma seq_generate:
  "seq (map (\<lambda>(filename, req, others). generate filename req others) bs) (w, ds) =
     (w\<lparr>files := fold (\<lambda>(filename, req, others) m.
                       m(path_of filename \<mapsto> [page_of filename req])) bs (files w),
        stdout := stdout w @
          map (\<lambda>(filename, req, others).
                 [CHR 0xE2, CHR 0x9C, CHR 0x93] @ '' Created '' @ filename) bs\<rparr>,
      ds @ map (\<lambda>(filename, req, others). (''filename'', Str filename) # others) bs)"
proof (induction bs arbitrary: w ds)
  case Nil
  then show ?case by simp
next
  case (Cons b bs)
  obtain filename req others where b: "b = (filename, req, others)"
    by (cases b) auto
  show ?case
    by (simp add: b generate_eq Cons.IH)
qed

lemma main_documents:
  "snd (main w) = map (\<lambda>(filename, req, others). (''filename'', Str filename) # others) blocks"
  by (simp add: main_def seq_generate)

lemma main_files:
  "files (fst (main w)) =
     fold (\<lambda>(filename, req, others) m. m(path_of filename \<mapsto> [page_of filename req]))
       blocks (files w)"
  by (simp add: main_def seq_generate print_def makedirs_def)

lemma main_dirs: "dirs (fst (main w)) = insert OUTPUT_DIR (dirs w)"
  by (simp add: main_def seq_generate print_def makedirs_def)

subsection \<open>Derived values\<close>

lemma w2_box2:
  "field_values (code (draw_w2 (Canvas f ps) employer w employee ssn ein year is_blank low_quality))
     ''2 Federal income tax withheld'' = (if is_blank then [] else [money (fmul w (lit 22 2))])"
  by (cases is_blank; cases low_quality)
     (simp_all add: draw_w2_def canvas_simps field_values_def)

lemma w2_box4:
  "field_values (code (draw_w2 (Canvas f ps) employer w employee ssn ein year is_blank low_quality))
     ''4 Social security tax withheld'' = (if is_blank then [] else [money (fmul w (lit 62 3))])"
  by (cases is_blank; cases low_quality)
     (simp_all add: draw_w2_def canvas_simps field_values_def)

lemma w2_box6:
  "field_values (code (draw_w2 (Canvas f ps) employer w employee ssn ein year is_blank low_quality))
     ''6 Medicare tax withheld'' = (if is_blank then [] else [money (fmul w (lit 145 4))])"
  by (cases is_blank; cases low_quality)
     (simp_all add: draw_w2_def canvas_simps field_values_def)

lemma div_box1b:
  "field_values (code (draw_1099div (Canvas f ps) payer d recipient rtin ptin year))
     ''1b Qualified dividends'' = [money (fmul d (lit 8 1))]"
  by (simp add: draw_1099div_def canvas_simps field_values_def)

lemma mortgage_box2:
  "field_values (code (draw_1098 (Canvas f ps) lender i borrower btin ltin year))
     ''2 Outstanding mortgage principal'' = [money (fmul i (lit 25 0))]"
  by (simp add: draw_1098_def canvas_simps field_values_def)

subsection \<open>The products of the program and exact products\<close>

text \<open>
  Rounding to the nearest integer is off by at most a half, so a float made by
  \<open>round_ratio\<close> is within half a unit of its last place of the quotient it rounds; the
  product of two floats and a literal are such floats.
\<close>

lemma round_half_even_bounds:
  assumes "0 < d"
  shows "2 * (round_half_even n d * d) \<le> 2 * n + d \<and> 2 * n \<le> 2 * (round_half_even n d * d) + d"
proof -
  define q r where "q = n div d" and "r = n mod d"
  have n: "n = q * d + r" and r: "r < d"
    using assms by (simp_all add: q_def r_def)
  show ?thesis
    unfolding round_half_even_def ties_even_def q_def [symmetric] r_def [symmetric]
    using n r by (auto simp add: algebra_simps)
qed

lemma round_half_even_error:
  assumes "0 < d"
  shows "2 * \<bar>rat_of_nat (round_half_even n d) - rat_of_nat n / rat_of_nat d\<bar> \<le> 1"
proof -
  define x where "x = rat_of_nat (round_half_even n d * d)"
  define y where "y = rat_of_nat n"
  define z where "z = rat_of_nat d"
  from round_half_even_bounds [OF assms, of n]
  have "rat_of_nat (2 * (round_half_even n d * d)) \<le> rat_of_nat (2 * n + d)"
    and "rat_of_nat (2 * n) \<le> rat_of_nat (2 * (round_half_even n d * d) + d)"
    by (simp_all only: of_nat_le_iff)
  then have a: "2 * x \<le> 2 * y + z" and b: "2 * y \<le> 2 * x + z"
    by (simp_all add: x_def y_def z_def)
  have z: "0 < z" using assms by (simp add: z_def)
  have "2 * \<bar>x - y\<bar> \<le> z"
  proof (cases "y \<le> x")
    case True
    then have "\<bar>x - y\<bar> = x - y" by simp
    with a show ?thesis by simp
  next
    case False
    then have "\<bar>x - y\<bar> = y - x" by simp
    with b show ?thesis by simp
  qed
  moreover have "rat_of_nat (round_half_even n d) - y / z = (x - y) / z"
    using z by (simp add: x_def z_def field_simps)
  ultimately have "2 * \<bar>rat_of_nat (round_half_even n d) - y / z\<bar> \<le> 1"
    using z by (simp add: field_simps)
  then show ?thesis by (simp add: y_def z_def)
qed

lemma powi_split: "(2::rat) powi ex = 2 ^ nat ex / 2 ^ nat (- ex)"
  by (cases "0 \<le> ex") (simp_all add: power_int_def field_simps)

lemma scaled_error:
  assumes "0 < d"
  shows "2 * \<bar>rat_of_nat (round_half_even (n * 2 ^ nat (- ex)) (d * 2 ^ nat ex)) * 2 powi ex
              - rat_of_nat n / rat_of_nat d\<bar> \<le> 2 powi ex"
proof -
  let ?N = "n * 2 ^ nat (- ex)" and ?D = "d * 2 ^ nat ex"
  define M where "M = rat_of_nat (round_half_even ?N ?D)"
  define p where "p = (2::rat) powi ex"
  define t where "t = rat_of_nat n / rat_of_nat d"
  define u where "u = M - t / p"
  have p: "0 < p" by (simp add: p_def)
  have D: "0 < ?D" using assms by simp
  have ratio: "rat_of_nat ?N / rat_of_nat ?D = t / p"
    by (simp add: p_def t_def powi_split)
  have "2 * \<bar>M - rat_of_nat ?N / rat_of_nat ?D\<bar> \<le> 1"
    unfolding M_def by (rule round_half_even_error [OF D])
  then have A: "2 * \<bar>u\<bar> \<le> 1"
    by (simp only: ratio u_def)
  have "u * p = M * p - t"
    using p by (simp add: u_def field_simps)
  then have "\<bar>M * p - t\<bar> = \<bar>u\<bar> * \<bar>p\<bar>"
    by (simp only: abs_mult [symmetric])
  then have B: "\<bar>M * p - t\<bar> = \<bar>u\<bar> * p"
    using p by simp
  have "2 * \<bar>M * p - t\<bar> = (2 * \<bar>u\<bar>) * p"
    by (simp only: B mult.assoc)
  also have "\<dots> \<le> 1 * p"
    using A p by (intro mult_right_mono) simp_all
  finally show ?thesis
    by (simp add: M_def p_def t_def)
qed

lemma round_to_error:
  assumes "round_to s n d ex = Finite s' m e" and "0 < d"
  shows "s' = s \<and> 2 * \<bar>rat_of_nat m * 2 powi e - rat_of_nat n / rat_of_nat d\<bar> \<le> 2 powi e"
proof -
  let ?M = "round_half_even (n * 2 ^ nat (- ex)) (d * 2 ^ nat ex)"
  note err = scaled_error [OF assms(2), of n ex]
  show ?thesis
  proof (cases "?M = 2 ^ 53")
    case True
    with assms(1) have eq: "s' = s \<and> m = 2 ^ 52 \<and> e = ex + 1"
      by (auto simp add: round_to_def pack_def split: if_splits)
    have up: "(2::rat) powi (ex + 1) = 2 * 2 powi ex"
      by (simp add: power_int_add)
    have "rat_of_nat m * 2 powi e = rat_of_nat ?M * 2 powi ex"
      by (simp add: eq True up)
    moreover have "(2::rat) powi ex \<le> 2 powi e"
      by (simp add: eq up)
    ultimately show ?thesis using err eq by simp
  next
    case False
    with assms(1) have eq: "s' = s \<and> m = ?M \<and> e = ex"
      by (auto simp add: round_to_def pack_def split: if_splits)
    then show ?thesis using err by simp
  qed
qed

lemma round_ratio_error:
  assumes "round_ratio s n d = Finite s' m e" and "0 < d"
  shows "s' = s \<and> 2 * \<bar>rat_of_nat m * 2 powi e - rat_of_nat n / rat_of_nat d\<bar> \<le> 2 powi e"
proof (cases "n = 0")
  case True
  with assms(1) show ?thesis by (auto simp add: round_ratio_def)
next
  case False
  with assms(1) have "round_to s n d (max (floor_log2 n d - 52) (- 1074)) = Finite s' m e"
    by (simp add: round_ratio_def)
  then show ?thesis using assms(2) by (rule round_to_error)
qed

lemma fmul_error:
  assumes "fmul (Finite s1 m1 e1) (Finite s2 m2 e2) = Finite s m e"
  shows "s = (s1 \<noteq> s2) \<and>
     2 * \<bar>fval (Finite s m e) - fval (Finite s1 m1 e1) * fval (Finite s2 m2 e2)\<bar> \<le> 2 powi e"
proof -
  let ?n = "m1 * m2 * 2 ^ nat (e1 + e2)" and ?d = "(2::nat) ^ nat (- (e1 + e2))"
  from assms have r: "round_ratio (s1 \<noteq> s2) ?n ?d = Finite s m e" by simp
  have d: "0 < ?d" by simp
  from round_ratio_error [OF r d]
  have s: "s = (s1 \<noteq> s2)"
    and err: "2 * \<bar>rat_of_nat m * 2 powi e - rat_of_nat ?n / rat_of_nat ?d\<bar> \<le> 2 powi e"
    by simp_all
  have ratio: "rat_of_nat ?n / rat_of_nat ?d =
      (rat_of_nat m1 * 2 powi e1) * (rat_of_nat m2 * 2 powi e2)"
  proof -
    have "rat_of_nat ?n / rat_of_nat ?d = rat_of_nat m1 * rat_of_nat m2 * 2 powi (e1 + e2)"
      by (simp add: powi_split [of "e1 + e2"])
    also have "\<dots> = (rat_of_nat m1 * 2 powi e1) * (rat_of_nat m2 * 2 powi e2)"
      by (simp add: power_int_add)
    finally show ?thesis .
  qed
  define a where "a = rat_of_nat m * 2 powi e"
  define b where "b = (rat_of_nat m1 * 2 powi e1) * (rat_of_nat m2 * 2 powi e2)"
  have ab: "2 * \<bar>a - b\<bar> \<le> 2 powi e"
    using err unfolding ratio a_def b_def .
  have "\<bar>fval (Finite s m e) - fval (Finite s1 m1 e1) * fval (Finite s2 m2 e2)\<bar> = \<bar>a - b\<bar>"
  proof (cases "s1 = s2")
    case True
    then have "fval (Finite s m e) - fval (Finite s1 m1 e1) * fval (Finite s2 m2 e2) = a - b"
      by (simp add: s a_def b_def)
    then show ?thesis by simp
  next
    case False
    then have "fval (Finite s m e) - fval (Finite s1 m1 e1) * fval (Finite s2 m2 e2) = - (a - b)"
      by (cases s1; cases s2) (simp_all add: s a_def b_def)
    then show ?thesis by simp
  qed
  with ab s show ?thesis by simp
qed

lemma lit_error:
  assumes "lit n k = Finite s m e"
  shows "2 * \<bar>fval (lit n k) - rat_of_nat n / 10 ^ k\<bar> \<le> 2 powi e"
proof -
  from assms have r: "round_ratio False n (10 ^ k) = Finite s m e"
    by (simp add: lit_def)
  have "(0::nat) < 10 ^ k" by simp
  from round_ratio_error [OF r this] show ?thesis
    by (simp add: assms)
qed

lemma fmul_techstart:
  "fmul (lit 9215000 2) (lit 145 4) = Finite False 5876559796974387 (- 42)"
  by (simp add: float_simps)

lemma lit_values:
  "lit 22 2 = Finite False 7926335344172073 (- 55)"
  "lit 62 3 = Finite False 8935141660703064 (- 57)"
  "lit 145 4 = Finite False 8358680908399641 (- 59)"
  "lit 8 1 = Finite False 7205759403792794 (- 53)"
  "lit 25 0 = Finite False 7036874417766400 (- 48)"
  "lit 9215000 2 = Finite False 6332499781222400 (- 36)"
  by (simp_all add: float_simps)

lemma lit_errors:
  "2 * \<bar>fval (lit 22 2) - 22 / 10 ^ 2\<bar> \<le> 2 powi (- 55)"
  "2 * \<bar>fval (lit 62 3) - 62 / 10 ^ 3\<bar> \<le> 2 powi (- 57)"
  "2 * \<bar>fval (lit 145 4) - 145 / 10 ^ 4\<bar> \<le> 2 powi (- 59)"
  "2 * \<bar>fval (lit 8 1) - 8 / 10 ^ 1\<bar> \<le> 2 powi (- 53)"
  "fval (lit 25 0) = 25"
  using lit_error [OF lit_values(1)] lit_error [OF lit_values(2)] lit_error [OF lit_values(3)]
    lit_error [OF lit_values(4)]
  by (simp_all add: lit_values(5))

lemma techstart_medicare:
  "field_values (code (draw_w2 (Canvas ''docs/w2-techstart-2024.pdf'' letter) ''TechStart Inc''
       (lit 9215000 2) ''John Q. Taxpayer'' ''XXX-XX-1234'' ''12-3456789'' ''2024'' False False))
     ''6 Medicare tax withheld'' = [''$1,336.17'']"
proof -
  have "money (fmul (lit 9215000 2) (lit 145 4)) = ''$1,336.17''"
    by (simp add: float_simps)
  then show ?thesis
    by (simp only: w2_box6 if_False)
qed

lemma fval_techstart: "fval (lit 9215000 2) = 92150"
  by (simp add: float_simps)

text \<open>The values of the first W-2, of the 1099-DIV and of the 1098 that the driver requests.\<close>

lemma money_acme:
  "money (fmul (lit 7543200 2) (lit 22 2)) = ''$16,595.04''"
  "money (fmul (lit 7543200 2) (lit 62 3)) = ''$4,676.78''"
  "money (fmul (lit 7543200 2) (lit 145 4)) = ''$1,093.76''"
  "money (fmul (lit 567800 2) (lit 8 1)) = ''$4,542.40''"
  "money (fmul (lit 1234500 2) (lit 25 0)) = ''$308,625.00''"
  by (simp_all add: float_simps)

text \<open>
  Claim C1, as the program has it. For every W-2 with wages \<open>w\<close>, every 1099-DIV with total
  dividends \<open>d\<close> and every 1098 with mortgage interest \<open>i\<close>, the one value text of each derived
  field is the money format of the float product of the source (\<^verbatim>\<open>wages * 0.22\<close>,
  \<^verbatim>\<open>wages * 0.062\<close>, \<^verbatim>\<open>wages * 0.0145\<close>, \<^verbatim>\<open>dividends * 0.8\<close>, \<^verbatim>\<open>interest * 25\<close>), whatever the
  other arguments are, and a blank W-2 draws none of them: no derived value is supplied
  independently. The product of two finite floats, when finite, has the sign of the exact
  product and is within half a unit of its last place of it; the constants are the floats
  within half a unit of the last place of 0.22, 0.062, 0.0145 and 0.8, and 25 exactly.
\<close>

theorem derived_values_binary64:
  "field_values (code (draw_w2 (Canvas f ps) employer w employee ssn ein year is_blank low_quality))
     ''2 Federal income tax withheld'' = (if is_blank then [] else [money (fmul w (lit 22 2))])
   \<and> field_values (code (draw_w2 (Canvas f ps) employer w employee ssn ein year is_blank low_quality))
     ''4 Social security tax withheld'' = (if is_blank then [] else [money (fmul w (lit 62 3))])
   \<and> field_values (code (draw_w2 (Canvas f ps) employer w employee ssn ein year is_blank low_quality))
     ''6 Medicare tax withheld'' = (if is_blank then [] else [money (fmul w (lit 145 4))])
   \<and> field_values (code (draw_1099div (Canvas f ps) payer d recipient rtin ptin year))
     ''1b Qualified dividends'' = [money (fmul d (lit 8 1))]
   \<and> field_values (code (draw_1098 (Canvas f ps) lender i borrower btin ltin year))
     ''2 Outstanding mortgage principal'' = [money (fmul i (lit 25 0))]
   \<and> (fmul (Finite s1 m1 e1) (Finite s2 m2 e2) = Finite s m e \<longrightarrow>
        s = (s1 \<noteq> s2) \<and>
        2 * \<bar>fval (Finite s m e) - fval (Finite s1 m1 e1) * fval (Finite s2 m2 e2)\<bar> \<le> 2 powi e)
   \<and> 2 * \<bar>fval (lit 22 2) - 22 / 10 ^ 2\<bar> \<le> 2 powi (- 55)
   \<and> 2 * \<bar>fval (lit 62 3) - 62 / 10 ^ 3\<bar> \<le> 2 powi (- 57)
   \<and> 2 * \<bar>fval (lit 145 4) - 145 / 10 ^ 4\<bar> \<le> 2 powi (- 59)
   \<and> 2 * \<bar>fval (lit 8 1) - 8 / 10 ^ 1\<bar> \<le> 2 powi (- 53)
   \<and> fval (lit 25 0) = 25"
proof -
  have product: "fmul (Finite s1 m1 e1) (Finite s2 m2 e2) = Finite s m e \<longrightarrow>
        s = (s1 \<noteq> s2) \<and>
        2 * \<bar>fval (Finite s m e) - fval (Finite s1 m1 e1) * fval (Finite s2 m2 e2)\<bar> \<le> 2 powi e"
  proof (rule impI)
    assume "fmul (Finite s1 m1 e1) (Finite s2 m2 e2) = Finite s m e"
    then show "s = (s1 \<noteq> s2) \<and>
        2 * \<bar>fval (Finite s m e) - fval (Finite s1 m1 e1) * fval (Finite s2 m2 e2)\<bar> \<le> 2 powi e"
      by (rule fmul_error)
  qed
  from w2_box2 w2_box4 w2_box6 div_box1b mortgage_box2 product lit_errors
  show ?thesis by (intro conjI)
qed

theorem derived_values_binary64_witness:
  "field_values (code (draw_w2 (Canvas ''docs/w2-techstart-2024.pdf'' letter) ''TechStart Inc''
       (lit 9215000 2) ''John Q. Taxpayer'' ''XXX-XX-1234'' ''12-3456789'' ''2024'' False False))
     ''6 Medicare tax withheld'' = [''$1,336.17'']
   \<and> fmul (Finite False 6332499781222400 (- 36)) (Finite False 8358680908399641 (- 59)) =
       Finite False 5876559796974387 (- 42)
   \<and> 2 * \<bar>fval (Finite False 5876559796974387 (- 42)) -
            fval (Finite False 6332499781222400 (- 36)) *
            fval (Finite False 8358680908399641 (- 59))\<bar> \<le> 2 powi (- 42)"
proof -
  have prod: "fmul (Finite False 6332499781222400 (- 36)) (Finite False 8358680908399641 (- 59)) =
       Finite False 5876559796974387 (- 42)"
    using fmul_techstart by (simp only: lit_values)
  note inst = derived_values_binary64 [where ?s1.0 = False and ?m1.0 = 6332499781222400
        and ?e1.0 = "- 36" and ?s2.0 = False and ?m2.0 = 8358680908399641 and ?e2.0 = "- 59"
        and s = False and m = 5876559796974387 and e = "- 42"]
  note imp = inst [THEN conjunct2, THEN conjunct2, THEN conjunct2, THEN conjunct2,
      THEN conjunct2, THEN conjunct1]
  note bound = imp [THEN mp, OF prod, THEN conjunct2]
  from techstart_medicare prod bound show ?thesis
    by (intro conjI)
qed

text \<open>
  With exact products in place of the float products the statement fails, on a document of
  the driver: for the
  W-2 of "TechStart Inc" with the wages 92150.00 the Medicare tax drawn is "$1,336.17",
  while 0.0145 times 92150 is 1336.175, which rounds to "$1,336.18".
\<close>

theorem derived_values_not_exact:
  "field_values (code (draw_w2 (Canvas ''docs/w2-techstart-2024.pdf'' letter) ''TechStart Inc''
       (lit 9215000 2) ''John Q. Taxpayer'' ''XXX-XX-1234'' ''12-3456789'' ''2024'' False False))
     ''6 Medicare tax withheld'' = [''$1,336.17'']
   \<and> fval (lit 9215000 2) = 92150
   \<and> (145 / 10 ^ 4 :: rat) * 92150 = 1336175 / 10 ^ 3
   \<and> exact_money (145 * 9215000) (10 ^ 4 * 10 ^ 2) = ''$1,336.18''
   \<and> field_values (code (draw_w2 (Canvas ''docs/w2-techstart-2024.pdf'' letter) ''TechStart Inc''
       (lit 9215000 2) ''John Q. Taxpayer'' ''XXX-XX-1234'' ''12-3456789'' ''2024'' False False))
     ''6 Medicare tax withheld'' \<noteq> [exact_money (145 * 9215000) (10 ^ 4 * 10 ^ 2)]"
proof -
  have ex: "exact_money (145 * 9215000) (10 ^ 4 * 10 ^ 2) = ''$1,336.18''"
    by (simp add: exact_money_def float_simps)
  have ar: "(145 / 10 ^ 4 :: rat) * 92150 = 1336175 / 10 ^ 3"
    by simp
  have ne: "[''$1,336.17''] \<noteq> [''$1,336.18'']"
    by simp
  have differ: "field_values
      (code (draw_w2 (Canvas ''docs/w2-techstart-2024.pdf'' letter) ''TechStart Inc''
         (lit 9215000 2) ''John Q. Taxpayer'' ''XXX-XX-1234'' ''12-3456789'' ''2024'' False False))
      ''6 Medicare tax withheld'' \<noteq> [exact_money (145 * 9215000) (10 ^ 4 * 10 ^ 2)]"
    unfolding techstart_medicare ex by (rule ne)
  from techstart_medicare fval_techstart ar ex differ show ?thesis
    by (intro conjI)
qed

subsection \<open>The 1099-NEC of the driver\<close>

lemma nec_box1: "field_values (code (draw_1099nec (Canvas f ps) payer amount rn rt pt yr))
    ''1 Nonemployee compensation'' = [money amount]"
  by (simp add: draw_1099nec_def canvas_simps field_values_def)

lemma nec_box4: "field_values (code (draw_1099nec (Canvas f ps) payer amount rn rt pt yr))
    ''4 Federal income tax withheld'' = [''$0.00'']"
  by (simp add: draw_1099nec_def canvas_simps field_values_def)

lemma money_45000: "money (lit 4500000 2) = ''$45,000.00''"
  by (simp add: float_simps)

lemma main_file_nec:
  "files (fst (main w)) ''docs/1099nec-consult-2024.pdf'' =
     Some [page_of ''1099nec-consult-2024.pdf''
             (call_1099nec ''Consulting Partners'' (lit 4500000 2))]"
  by (simp add: main_files blocks_def path_of_def OUTPUT_DIR_def)

text \<open>
  Claim C7. A 1099-NEC for the payer "Consulting Partners" with the compensation 45000.00
  has the Box 1 value text "$45,000.00", and the Box 4 value text of a 1099-NEC is "$0.00"
  whatever the compensation (and the other arguments) are. The driver requests this
  document: it is the page of the file \<^verbatim>\<open>docs/1099nec-consult-2024.pdf\<close>.
\<close>

theorem nec_consulting_partners:
  "field_values
     (code (draw_1099nec (Canvas f ps) ''Consulting Partners'' (lit 4500000 2) rn rt pt yr))
     ''1 Nonemployee compensation'' = [''$45,000.00'']
   \<and> field_values (code (draw_1099nec (Canvas f ps) payer amount rn rt pt yr))
     ''4 Federal income tax withheld'' = [''$0.00'']
   \<and> files (fst (main w)) ''docs/1099nec-consult-2024.pdf'' =
     Some [page_of ''1099nec-consult-2024.pdf''
             (call_1099nec ''Consulting Partners'' (lit 4500000 2))]
   \<and> field_values
     (page_of ''1099nec-consult-2024.pdf'' (call_1099nec ''Consulting Partners'' (lit 4500000 2)))
     ''1 Nonemployee compensation'' = [''$45,000.00'']
   \<and> field_values
     (page_of ''1099nec-consult-2024.pdf'' (call_1099nec ''Consulting Partners'' (lit 4500000 2)))
     ''4 Federal income tax withheld'' = [''$0.00'']"
  by (simp add: nec_box1 nec_box4 money_45000 main_file_nec page_of_def call_1099nec_def)

subsection \<open>The files and the manifest of a run\<close>

lemma main_filenames: "map entry_filename (snd (main w)) = map fst blocks"
  by (simp add: main_documents blocks_def entry_filename_def)

lemma blocks_filenames:
  "map fst blocks =
     [''w2-acme-2024.pdf'', ''w2-techstart-2024.pdf'', ''w2-globalco-2024.pdf'',
      ''1099nec-consult-2024.pdf'', ''1099nec-freelance-2024.pdf'', ''1099int-bigbank-2024.pdf'',
      ''1099div-invest-2024.pdf'', ''1098-mortgage-2024.pdf'', ''w2-blank-template.pdf'',
      ''w2-lowquality-2024.pdf'']"
  by (simp add: blocks_def)

lemma main_paths:
  "map (path_of \<circ> entry_filename) (snd (main w)) =
     [''docs/w2-acme-2024.pdf'', ''docs/w2-techstart-2024.pdf'', ''docs/w2-globalco-2024.pdf'',
      ''docs/1099nec-consult-2024.pdf'', ''docs/1099nec-freelance-2024.pdf'',
      ''docs/1099int-bigbank-2024.pdf'', ''docs/1099div-invest-2024.pdf'',
      ''docs/1098-mortgage-2024.pdf'', ''docs/w2-blank-template.pdf'',
      ''docs/w2-lowquality-2024.pdf'']"
  using main_filenames [of w] blocks_filenames
  by (simp add: map_map [symmetric] path_of_def OUTPUT_DIR_def del: map_map)

lemma main_files_explicit:
  "files (fst (main w)) = (files w)
     (''docs/w2-acme-2024.pdf'' \<mapsto>
        [page_of ''w2-acme-2024.pdf'' (call_w2 ''Acme Corp'' (lit 7543200 2) False False)],
      ''docs/w2-techstart-2024.pdf'' \<mapsto>
        [page_of ''w2-techstart-2024.pdf'' (call_w2 ''TechStart Inc'' (lit 9215000 2) False False)],
      ''docs/w2-globalco-2024.pdf'' \<mapsto>
        [page_of ''w2-globalco-2024.pdf'' (call_w2 ''GlobalCo LLC'' (lit 5500000 2) False False)],
      ''docs/1099nec-consult-2024.pdf'' \<mapsto>
        [page_of ''1099nec-consult-2024.pdf''
           (call_1099nec ''Consulting Partners'' (lit 4500000 2))],
      ''docs/1099nec-freelance-2024.pdf'' \<mapsto>
        [page_of ''1099nec-freelance-2024.pdf'' (call_1099nec ''Freelance Hub'' (lit 2850000 2))],
      ''docs/1099int-bigbank-2024.pdf'' \<mapsto>
        [page_of ''1099int-bigbank-2024.pdf'' (call_1099int ''Big Bank'' (lit 123400 2))],
      ''docs/1099div-invest-2024.pdf'' \<mapsto>
        [page_of ''1099div-invest-2024.pdf'' (call_1099div ''Investment Corp'' (lit 567800 2))],
      ''docs/1098-mortgage-2024.pdf'' \<mapsto>
        [page_of ''1098-mortgage-2024.pdf'' (call_1098 ''Home Loans Inc'' (lit 1234500 2))],
      ''docs/w2-blank-template.pdf'' \<mapsto>
        [page_of ''w2-blank-template.pdf'' (call_w2 [] (lit 0 0) True False)],
      ''docs/w2-lowquality-2024.pdf'' \<mapsto>
        [page_of ''w2-lowquality-2024.pdf'' (call_w2 ''Faded Corp'' (lit 4875000 2) False True)])"
  by (simp add: main_files blocks_def path_of_def OUTPUT_DIR_def)

lemma main_files_of_entries:
  "map (\<lambda>e. files (fst (main w)) (path_of (entry_filename e))) (snd (main w)) =
     map (\<lambda>(filename, req, others). Some [page_of filename req]) blocks"
proof -
  have "map (\<lambda>e. files (fst (main w)) (path_of (entry_filename e))) (snd (main w)) =
     map (files (fst (main w))) (map (path_of \<circ> entry_filename) (snd (main w)))"
    by simp
  also have "\<dots> = map (\<lambda>(filename, req, others). Some [page_of filename req]) blocks"
    unfolding main_paths by (simp add: main_files_explicit blocks_def)
  finally show ?thesis .
qed

lemma main_files_elsewhere:
  "files (fst (main w)) |` (- set (map (path_of \<circ> entry_filename) (snd (main w)))) =
   files w |` (- set (map (path_of \<circ> entry_filename) (snd (main w))))"
  unfolding main_paths by (rule ext) (simp add: main_files_explicit restrict_map_def)

lemma main_dom:
  "dom (files (fst (main w))) =
   dom (files w) \<union> set (map (path_of \<circ> entry_filename) (snd (main w)))"
  unfolding main_paths by (simp add: main_files_explicit insert_commute)

text \<open>
  Claim C2. A run of the driver returns a manifest of length 10 and writes exactly 10 files:
  the file names of the manifest entries are those of the ten blocks in request order and
  are distinct; the paths written are these names in the output directory, ten different
  ones; the file at the path of every entry is the one-page document drawn for the request of
  that entry; and every other path of the file system is as it was before the run.
\<close>

theorem ten_documents:
  "length (snd (main w)) = 10
   \<and> map entry_filename (snd (main w)) = map fst blocks
   \<and> distinct (map entry_filename (snd (main w)))
   \<and> dom (files (fst (main w))) =
       dom (files w) \<union> set (map (path_of \<circ> entry_filename) (snd (main w)))
   \<and> card (set (map (path_of \<circ> entry_filename) (snd (main w)))) = 10
   \<and> map (\<lambda>e. files (fst (main w)) (path_of (entry_filename e))) (snd (main w)) =
       map (\<lambda>(filename, req, others). Some [page_of filename req]) blocks
   \<and> files (fst (main w)) |` (- set (map (path_of \<circ> entry_filename) (snd (main w)))) =
       files w |` (- set (map (path_of \<circ> entry_filename) (snd (main w))))"
proof -
  have len: "length (snd (main w)) = 10"
    by (simp add: main_documents blocks_def)
  have dist: "distinct (map entry_filename (snd (main w)))"
    by (simp add: main_filenames blocks_filenames)
  have card: "card (set (map (path_of \<circ> entry_filename) (snd (main w)))) = 10"
    unfolding main_paths by simp
  show ?thesis
    using len dist card main_filenames main_dom main_files_of_entries main_files_elsewhere
    by blast
qed

subsection \<open>The amounts of the manifest\<close>

lemma main_monetary:
  "list_all2 (\<lambda>(filename, req, others) e.
       list_all (\<lambda>(k, v). v = Num (primary_amount req)) (monetary_fields e))
     blocks (snd (main w))"
  by (simp add: main_documents blocks_def monetary_fields_def call_w2_def call_1099nec_def
        call_1099int_def call_1099div_def call_1098_def)

lemma main_monetary_keys:
  "map (\<lambda>e. map fst (monetary_fields e)) (snd (main w)) =
     [[''wages''], [''wages''], [''wages''], [''compensation''], [''compensation''],
      [''interest''], [''dividends''], [''interest''], [], [''wages'']]"
  by (simp add: main_documents blocks_def monetary_fields_def)

lemma main_acme:
  "snd (main w) ! 0 =
     [(''filename'', Str ''w2-acme-2024.pdf''), (''type'', Str ''W-2''),
      (''employer'', Str ''Acme Corp''), (''wages'', Num (lit 7543200 2))]"
  by (simp add: main_documents blocks_def)

lemma main_blank_entry:
  "snd (main w) ! 8 =
     [(''filename'', Str ''w2-blank-template.pdf''), (''type'', Str ''W-2''),
      (''isBlank'', Bool True)]"
  by (simp add: main_documents blocks_def)

lemma lit_7543200_2: "lit 7543200 2 = Finite False 5183647569149952 (- 36)"
  by (simp add: float_simps)

text \<open>
  Claim C8. In the manifest of a run, every monetary field that an entry declares (wages,
  compensation, interest or dividends) holds the amount constant passed to the layout
  routine for that request: the entry of the W-2 for "Acme Corp" has wages = 75432.00, the
  float \<open>5183647569149952 * 2\<^sup>-\<^sup>3\<^sup>6\<close>. Every entry declares one monetary field, but the entry
  of the blank template, to which the driver gives none.
\<close>

theorem manifest_amounts:
  "list_all2 (\<lambda>(filename, req, others) e.
       list_all (\<lambda>(k, v). v = Num (primary_amount req)) (monetary_fields e))
     blocks (snd (main w))
   \<and> map (\<lambda>e. map fst (monetary_fields e)) (snd (main w)) =
     [[''wages''], [''wages''], [''wages''], [''compensation''], [''compensation''],
      [''interest''], [''dividends''], [''interest''], [], [''wages'']]
   \<and> snd (main w) ! 0 =
     [(''filename'', Str ''w2-acme-2024.pdf''), (''type'', Str ''W-2''),
      (''employer'', Str ''Acme Corp''), (''wages'', Num (lit 7543200 2))]
   \<and> lit 7543200 2 = Finite False 5183647569149952 (- 36)
   \<and> snd (main w) ! 8 =
     [(''filename'', Str ''w2-blank-template.pdf''), (''type'', Str ''W-2''),
      (''isBlank'', Bool True)]"
  using main_monetary main_monetary_keys main_acme main_blank_entry lit_7543200_2 by blast

subsection \<open>The blank W-2\<close>

lemma w2_blank_values:
  "value_texts (code (draw_w2 (Canvas f ps) employer w employee ssn ein year True low_quality)) = []"
  by (cases low_quality) (simp_all add: draw_w2_def canvas_simps value_texts_def)

lemma w2_blank_captions:
  "map text_of (filter is_text
     (code (draw_w2 (Canvas f ps) employer w employee ssn ein year True low_quality))) =
   [''Form W-2 Wage and Tax Statement '' @ year,
    ''a Employee's social security number'',
    ''b Employer identification number (EIN)'',
    ''c Employer's name, address, and ZIP code'',
    ''e Employee's first name and initial    Last name'',
    ''f Employee's address and ZIP code'',
    ''1 Wages, tips, other compensation'',
    ''2 Federal income tax withheld'',
    ''3 Social security wages'',
    ''4 Social security tax withheld'',
    ''5 Medicare wages and tips'',
    ''6 Medicare tax withheld'',
    ''Department of the Treasury - Internal Revenue Service'',
    ''Form W-2 ('' @ year @ '')'']"
  by (cases low_quality) (simp_all add: draw_w2_def canvas_simps)

lemma w2_blank_fields:
  "field_values (code (draw_w2 (Canvas f ps) employer w employee ssn ein year True low_quality))
     cap = []"
  by (cases low_quality) (simp_all add: draw_w2_def canvas_simps field_values_def)

lemma main_blank:
  "list_all2 (\<lambda>(filename, req, others) e.
       req_is_blank req \<longrightarrow> map_of e ''isBlank'' = Some (Bool True))
     blocks (snd (main w))"
  by (simp add: main_documents blocks_def call_w2_def call_1099nec_def
        call_1099int_def call_1099div_def call_1098_def)

lemma blocks_blank:
  "map (\<lambda>(filename, req, others). req_is_blank req) blocks =
     [False, False, False, False, False, False, False, False, True, False]"
  by (simp add: blocks_def call_w2_def call_1099nec_def
        call_1099int_def call_1099div_def call_1098_def)

text \<open>
  Claim C3. A W-2 drawn with \<open>is_blank\<close> set has no value text: every text after the title is in
  caption style, no field has a value, and the texts of the page are the title, the eleven
  field captions and the two footer lines. In the manifest of a run, the entry of every
  request with \<open>is_blank\<close> set (the ninth, the blank template) marks \<open>isBlank: True\<close>.
\<close>

theorem blank_w2:
  "value_texts (code (draw_w2 (Canvas f ps) employer w employee ssn ein year True low_quality)) = []
   \<and> field_values (code (draw_w2 (Canvas f ps) employer w employee ssn ein year True low_quality))
       cap = []
   \<and> map text_of (filter is_text
       (code (draw_w2 (Canvas f ps) employer w employee ssn ein year True low_quality))) =
     [''Form W-2 Wage and Tax Statement '' @ year,
      ''a Employee's social security number'',
      ''b Employer identification number (EIN)'',
      ''c Employer's name, address, and ZIP code'',
      ''e Employee's first name and initial    Last name'',
      ''f Employee's address and ZIP code'',
      ''1 Wages, tips, other compensation'',
      ''2 Federal income tax withheld'',
      ''3 Social security wages'',
      ''4 Social security tax withheld'',
      ''5 Medicare wages and tips'',
      ''6 Medicare tax withheld'',
      ''Department of the Treasury - Internal Revenue Service'',
      ''Form W-2 ('' @ year @ '')'']
   \<and> list_all2 (\<lambda>(filename, req, others) e.
         req_is_blank req \<longrightarrow> map_of e ''isBlank'' = Some (Bool True))
       blocks (snd (main v))
   \<and> map (\<lambda>(filename, req, others). req_is_blank req) blocks =
       [False, False, False, False, False, False, False, False, True, False]"
  by (simp add: w2_blank_values w2_blank_fields w2_blank_captions main_blank blocks_blank)

theorem blank_w2_witness:
  "req_is_blank (call_w2 [] (lit 0 0) True False)
   \<and> map_of (snd (main \<lparr>dirs = {}, files = Map.empty, stdout = []\<rparr>) ! 8) ''isBlank'' =
       Some (Bool True)
   \<and> value_texts (code (draw_w2 (Canvas ''docs/w2-blank-template.pdf'' letter) [] (lit 0 0)
       ''John Q. Taxpayer'' ''XXX-XX-1234'' ''12-3456789'' ''2024'' True False)) = []"
proof -
  let ?w = "\<lparr>dirs = {}, files = Map.empty, stdout = []\<rparr>"
  note inst = blank_w2 [where v = ?w and f = "''docs/w2-blank-template.pdf''" and ps = letter
      and employer = "[]" and w = "lit 0 0" and employee = "''John Q. Taxpayer''"
      and ssn = "''XXX-XX-1234''" and ein = "''12-3456789''" and year = "''2024''"
      and low_quality = False and cap = "''1 Wages, tips, other compensation''"]
  have blank: "req_is_blank (call_w2 [] (lit 0 0) True False)"
    by (simp add: call_w2_def)
  have all: "list_all2 (\<lambda>(filename, req, others) e.
         req_is_blank req \<longrightarrow> map_of e ''isBlank'' = Some (Bool True)) blocks (snd (main ?w))"
    using inst by blast
  have "(\<lambda>(filename, req, others) e.
         req_is_blank req \<longrightarrow> map_of e ''isBlank'' = Some (Bool True))
       (blocks ! 8) (snd (main ?w) ! 8)"
    by (rule list_all2_nthD [OF all]) (simp add: blocks_def)
  then have entry: "map_of (snd (main ?w) ! 8) ''isBlank'' = Some (Bool True)"
    using blank by (simp add: blocks_def)
  from inst blank entry show ?thesis by blast
qed

subsection \<open>The low-quality W-2\<close>

lemma lighter_than_black: "lighter lightgrey black" "lighter gray black"
  by (simp_all add: lighter_def lightgrey_def gray_def black_def)

lemma w2_lightened:
  "lightened (code (draw_w2 (Canvas f ps) employer w employee ssn ein year is_blank low_quality)) =
     (if low_quality \<and> \<not> is_blank
      then [(ssn, lightgrey), (employer, gray), (money w, lightgrey)] else [])"
  by (cases is_blank; cases low_quality)
     (simp_all add: draw_w2_def canvas_simps lightened_def black_def gray_def lightgrey_def)

lemma money_faded: "money (lit 4875000 2) = ''$48,750.00''"
  by (simp add: float_simps)

lemma faded_page:
  "lightened (page_of ''w2-lowquality-2024.pdf'' (call_w2 ''Faded Corp'' (lit 4875000 2) False True)) =
     [(''XXX-XX-1234'', lightgrey), (''Faded Corp'', gray), (''$48,750.00'', lightgrey)]"
  by (simp add: page_of_def call_w2_def w2_lightened money_faded)

lemma blocks_low_quality:
  "map (\<lambda>(filename, req, others). req_low_quality req) blocks =
     [False, False, False, False, False, False, False, False, False, True]"
  by (simp add: blocks_def call_w2_def call_1099nec_def call_1099int_def call_1099div_def
        call_1098_def)

lemma main_low_quality:
  "list_all2 (\<lambda>(filename, req, others) e.
       req_low_quality req \<longrightarrow>
         map_of e ''isLowQuality'' = Some (Bool True) \<and>
         lightened (page_of filename req) \<noteq> [] \<and>
         list_all (\<lambda>(t, col). lighter col black) (lightened (page_of filename req)))
     blocks (snd (main w))"
  by (simp add: main_documents blocks_def call_w2_def call_1099nec_def call_1099int_def
        call_1099div_def call_1098_def page_of_def w2_lightened lighter_than_black)

text \<open>
  Claim C4. In the manifest of a run, the entry of every request with \<open>low_quality\<close> set (the
  tenth, the only one) marks \<open>isLowQuality: True\<close>, and the page of that request has value
  texts that are not black, each of them in a fill colour lighter than black: the employee's
  social security number and the wages of Box 1 in light grey and the employer's name in
  grey. This is what \<open>draw_w2\<close> does with \<open>low_quality\<close> set for any arguments, when the
  document is not blank.
\<close>

theorem low_quality_w2:
  "list_all2 (\<lambda>(filename, req, others) e.
       req_low_quality req \<longrightarrow>
         map_of e ''isLowQuality'' = Some (Bool True) \<and>
         lightened (page_of filename req) \<noteq> [] \<and>
         list_all (\<lambda>(t, col). lighter col black) (lightened (page_of filename req)))
     blocks (snd (main v))
   \<and> map (\<lambda>(filename, req, others). req_low_quality req) blocks =
       [False, False, False, False, False, False, False, False, False, True]
   \<and> lightened (page_of ''w2-lowquality-2024.pdf''
         (call_w2 ''Faded Corp'' (lit 4875000 2) False True)) =
       [(''XXX-XX-1234'', lightgrey), (''Faded Corp'', gray), (''$48,750.00'', lightgrey)]
   \<and> lightened (code (draw_w2 (Canvas f ps) employer w employee ssn ein year is_blank True)) =
       (if is_blank then [] else [(ssn, lightgrey), (employer, gray), (money w, lightgrey)])
   \<and> lighter lightgrey black \<and> lighter gray black"
proof -
  have general:
    "lightened (code (draw_w2 (Canvas f ps) employer w employee ssn ein year is_blank True)) =
       (if is_blank then [] else [(ssn, lightgrey), (employer, gray), (money w, lightgrey)])"
    by (simp add: w2_lightened)
  from main_low_quality blocks_low_quality faded_page general lighter_than_black
  show ?thesis by (intro conjI)
qed

theorem low_quality_w2_witness:
  "req_low_quality (call_w2 ''Faded Corp'' (lit 4875000 2) False True)
   \<and> map_of (snd (main \<lparr>dirs = {}, files = Map.empty, stdout = []\<rparr>) ! 9) ''isLowQuality'' =
       Some (Bool True)
   \<and> list_all (\<lambda>(t, col). lighter col black)
       (lightened (page_of ''w2-lowquality-2024.pdf''
          (call_w2 ''Faded Corp'' (lit 4875000 2) False True)))"
proof -
  let ?w = "\<lparr>dirs = {}, files = Map.empty, stdout = []\<rparr>"
  note inst = low_quality_w2 [where v = ?w]
  note all = inst [THEN conjunct1]
  have lq: "req_low_quality (call_w2 ''Faded Corp'' (lit 4875000 2) False True)"
    by (simp add: call_w2_def)
  have "(\<lambda>(filename, req, others) e.
       req_low_quality req \<longrightarrow>
         map_of e ''isLowQuality'' = Some (Bool True) \<and>
         lightened (page_of filename req) \<noteq> [] \<and>
         list_all (\<lambda>(t, col). lighter col black) (lightened (page_of filename req)))
       (blocks ! 9) (snd (main ?w) ! 9)"
    by (rule list_all2_nthD [OF all]) (simp add: blocks_def)
  moreover have "blocks ! 9 = (''w2-lowquality-2024.pdf'',
      call_w2 ''Faded Corp'' (lit 4875000 2) False True,
      [(''type'', Str ''W-2''), (''employer'', Str ''Faded Corp''),
       (''wages'', Num (lit 4875000 2)), (''isLowQuality'', Bool True)])"
    by (simp add: blocks_def)
  ultimately have "map_of (snd (main ?w) ! 9) ''isLowQuality'' = Some (Bool True) \<and>
      list_all (\<lambda>(t, col). lighter col black)
       (lightened (page_of ''w2-lowquality-2024.pdf''
          (call_w2 ''Faded Corp'' (lit 4875000 2) False True)))"
    using lq by simp
  with lq show ?thesis by (intro conjI) simp_all
qed

subsection \<open>Fill colours of the W-2\<close>

lemma w2_fill_return:
  "fillColor (draw_w2 c employer w employee ssn ein year is_blank low_quality) =
     (if is_blank then fillColor c else black)"
  by (cases is_blank; cases low_quality) (simp_all add: draw_w2_def prim_simps split_beta)

lemma w2_fill_fresh:
  "fillColor (draw_w2 (Canvas f ps) employer w employee ssn ein year is_blank low_quality) = black"
  by (simp add: w2_fill_return) (simp add: Canvas_def)

lemma w2_fills_a:
  "field_fills (code (draw_w2 (Canvas f ps) employer w employee ssn ein year False low_quality))
     ''a Employee's social security number'' = [if low_quality then lightgrey else black]"
  by (cases low_quality) (simp_all add: draw_w2_def canvas_simps field_fills_def)

lemma w2_fills_c:
  "field_fills (code (draw_w2 (Canvas f ps) employer w employee ssn ein year False low_quality))
     ''c Employer's name, address, and ZIP code'' = [if low_quality then gray else black, black, black]"
  by (cases low_quality) (simp_all add: draw_w2_def canvas_simps field_fills_def)

lemma w2_fills_1:
  "field_fills (code (draw_w2 (Canvas f ps) employer w employee ssn ein year False low_quality))
     ''1 Wages, tips, other compensation'' = [if low_quality then lightgrey else black]"
  by (cases low_quality) (simp_all add: draw_w2_def canvas_simps field_fills_def)

lemma w2_fills_b:
  "field_fills (code (draw_w2 (Canvas f ps) employer w employee ssn ein year False low_quality))
     ''b Employer identification number (EIN)'' = [black]"
  by (cases low_quality) (simp_all add: draw_w2_def canvas_simps field_fills_def)

lemma w2_fills_e:
  "field_fills (code (draw_w2 (Canvas f ps) employer w employee ssn ein year False low_quality))
     ''e Employee's first name and initial    Last name'' = [black]"
  by (cases low_quality) (simp_all add: draw_w2_def canvas_simps field_fills_def)

lemma w2_fills_f:
  "field_fills (code (draw_w2 (Canvas f ps) employer w employee ssn ein year False low_quality))
     ''f Employee's address and ZIP code'' = [black]"
  by (cases low_quality) (simp_all add: draw_w2_def canvas_simps field_fills_def)

lemma w2_fills_2:
  "field_fills (code (draw_w2 (Canvas f ps) employer w employee ssn ein year False low_quality))
     ''2 Federal income tax withheld'' = [black]"
  by (cases low_quality) (simp_all add: draw_w2_def canvas_simps field_fills_def)

lemma w2_fills_3:
  "field_fills (code (draw_w2 (Canvas f ps) employer w employee ssn ein year False low_quality))
     ''3 Social security wages'' = [black]"
  by (cases low_quality) (simp_all add: draw_w2_def canvas_simps field_fills_def)

lemma w2_fills_4:
  "field_fills (code (draw_w2 (Canvas f ps) employer w employee ssn ein year False low_quality))
     ''4 Social security tax withheld'' = [black]"
  by (cases low_quality) (simp_all add: draw_w2_def canvas_simps field_fills_def)

lemma w2_fills_5:
  "field_fills (code (draw_w2 (Canvas f ps) employer w employee ssn ein year False low_quality))
     ''5 Medicare wages and tips'' = [black]"
  by (cases low_quality) (simp_all add: draw_w2_def canvas_simps field_fills_def)

lemma w2_fills_6:
  "field_fills (code (draw_w2 (Canvas f ps) employer w employee ssn ein year False low_quality))
     ''6 Medicare tax withheld'' = [black]"
  by (cases low_quality) (simp_all add: draw_w2_def canvas_simps field_fills_def)

lemma w2_blank_lightened:
  "lightened (code (draw_w2 (Canvas ''docs/w2-lowquality-2024.pdf'' letter) ''Faded Corp''
      (lit 4875000 2) ''John Q. Taxpayer'' ''XXX-XX-1234'' ''12-3456789'' ''2024'' True True)) = []"
  by (simp add: w2_lightened)

text \<open>
  Claim C10, as the program has it. On a fresh canvas, \<open>draw_w2\<close> with \<open>low_quality\<close> set and
  \<open>is_blank\<close> not set lightens exactly three value texts: the employee's social security
  number and the wages of Box 1 in light grey and the employer's name in grey. With
  \<open>is_blank\<close> set, or \<open>low_quality\<close> not set, it lightens none. Every other value text is
  black, the derived amounts of Box 2, 4 and 6 among them, and so are the address lines that
  follow the employer's name. The fill colour is black when the routine returns, for every
  combination of the flags; on a canvas with another fill colour, a blank W-2 leaves that
  colour as it is.
\<close>

theorem w2_lightening:
  "lightened (code (draw_w2 (Canvas f ps) employer w employee ssn ein year is_blank low_quality)) =
     (if low_quality \<and> \<not> is_blank
      then [(ssn, lightgrey), (employer, gray), (money w, lightgrey)] else [])
   \<and> fillColor (draw_w2 (Canvas f ps) employer w employee ssn ein year is_blank low_quality) = black
   \<and> fillColor (draw_w2 c employer w employee ssn ein year is_blank low_quality) =
       (if is_blank then fillColor c else black)
   \<and> field_fills (code (draw_w2 (Canvas f ps) employer w employee ssn ein year False low_quality))
       ''a Employee's social security number'' = [if low_quality then lightgrey else black]
   \<and> field_fills (code (draw_w2 (Canvas f ps) employer w employee ssn ein year False low_quality))
       ''c Employer's name, address, and ZIP code'' =
       [if low_quality then gray else black, black, black]
   \<and> field_fills (code (draw_w2 (Canvas f ps) employer w employee ssn ein year False low_quality))
       ''1 Wages, tips, other compensation'' = [if low_quality then lightgrey else black]
   \<and> field_fills (code (draw_w2 (Canvas f ps) employer w employee ssn ein year False low_quality))
       ''b Employer identification number (EIN)'' = [black]
   \<and> field_fills (code (draw_w2 (Canvas f ps) employer w employee ssn ein year False low_quality))
       ''e Employee's first name and initial    Last name'' = [black]
   \<and> field_fills (code (draw_w2 (Canvas f ps) employer w employee ssn ein year False low_quality))
       ''f Employee's address and ZIP code'' = [black]
   \<and> field_fills (code (draw_w2 (Canvas f ps) employer w employee ssn ein year False low_quality))
       ''2 Federal income tax withheld'' = [black]
   \<and> field_fills (code (draw_w2 (Canvas f ps) employer w employee ssn ein year False low_quality))
       ''3 Social security wages'' = [black]
   \<and> field_fills (code (draw_w2 (Canvas f ps) employer w employee ssn ein year False low_quality))
       ''4 Social security tax withheld'' = [black]
   \<and> field_fills (code (draw_w2 (Canvas f ps) employer w employee ssn ein year False low_quality))
       ''5 Medicare wages and tips'' = [black]
   \<and> field_fills (code (draw_w2 (Canvas f ps) employer w employee ssn ein year False low_quality))
       ''6 Medicare tax withheld'' = [black]"
  by (intro conjI)
     (rule w2_lightened w2_fill_fresh w2_fill_return w2_fills_a w2_fills_c w2_fills_1 w2_fills_b
        w2_fills_e w2_fills_f w2_fills_2 w2_fills_3 w2_fills_4 w2_fills_5 w2_fills_6)+

text \<open>
  With both flags set no value text is lightened, so the statement that three are lightened
  whenever \<open>low_quality\<close> is set fails.
\<close>

theorem w2_lightening_blank:
  "lightened (code (draw_w2 (Canvas ''docs/w2-lowquality-2024.pdf'' letter) ''Faded Corp''
      (lit 4875000 2) ''John Q. Taxpayer'' ''XXX-XX-1234'' ''12-3456789'' ''2024'' True True)) = []
   \<and> length (lightened (code (draw_w2 (Canvas ''docs/w2-lowquality-2024.pdf'' letter)
      ''Faded Corp'' (lit 4875000 2) ''John Q. Taxpayer'' ''XXX-XX-1234'' ''12-3456789'' ''2024''
      True True))) \<noteq> 3"
  by (simp add: w2_blank_lightened)

subsection \<open>Determinism\<close>

lemma draw_w2_fresh:
  "code (draw_w2 (Canvas f ps) employer w employee ssn ein year is_blank low_quality) =
   code (draw_w2 (Canvas f' ps') employer w employee ssn ein year is_blank low_quality)"
  by (cases is_blank; cases low_quality) (simp_all add: draw_w2_def canvas_simps)

lemma draw_fresh: "code (draw req (Canvas f ps)) = code (draw req (Canvas f' ps'))"
proof (cases req)
  case (W2 employer w employee ssn ein year is_blank low_quality)
  then show ?thesis by (simp add: draw_w2_fresh [of f ps _ _ _ _ _ _ _ _ f' ps'])
next
  case F1099NEC
  then show ?thesis by (simp add: draw_1099nec_def canvas_simps)
next
  case F1099INT
  then show ?thesis by (simp add: draw_1099int_def canvas_simps)
next
  case F1099DIV
  then show ?thesis by (simp add: draw_1099div_def canvas_simps)
next
  case F1098
  then show ?thesis by (simp add: draw_1098_def canvas_simps)
qed

lemma main_files_same:
  "map (\<lambda>e. files (fst (main w1)) (path_of (entry_filename e))) (snd (main w1)) =
   map (\<lambda>e. files (fst (main w2)) (path_of (entry_filename e))) (snd (main w2))"
  by (simp only: main_files_of_entries)

lemma main_twice_files: "files (fst (main (fst (main w)))) = files (fst (main w))"
  by (rule ext) (simp add: main_files_explicit)

lemma main_twice_dirs: "dirs (fst (main (fst (main w)))) = dirs (fst (main w))"
  by (simp add: main_dirs)

lemma main_same_documents: "snd (main w1) = snd (main w2)"
  by (simp only: main_documents)

text \<open>
  Claim C9. The generator is deterministic. Two runs, from any two worlds, return the same
  manifest and write the same documents to the files of the manifest; a second run after a
  first returns the same manifest again and leaves the files and the directories as the
  first run left them. The page drawn for a request is a function of the arguments of the
  request alone: it is the same on every fresh canvas, whatever the file and the page size
  of the canvas are. Nothing else enters: the driver reads no input, no clock and no
  random source, and the model has none.
\<close>

theorem deterministic_run:
  "snd (main w1) = snd (main w2)
   \<and> map (\<lambda>e. files (fst (main w1)) (path_of (entry_filename e))) (snd (main w1)) =
       map (\<lambda>e. files (fst (main w2)) (path_of (entry_filename e))) (snd (main w2))
   \<and> snd (main (fst (main w1))) = snd (main w1)
   \<and> files (fst (main (fst (main w1)))) = files (fst (main w1))
   \<and> dirs (fst (main (fst (main w1)))) = dirs (fst (main w1))
   \<and> code (draw req (Canvas f ps)) = code (draw req (Canvas f' ps'))
   \<and> page_of filename req = code (draw req (Canvas f ps))"
proof -
  have page: "page_of filename req = code (draw req (Canvas f ps))"
    unfolding page_of_def by (rule draw_fresh)
  from main_same_documents main_files_same main_same_documents main_twice_files
    main_twice_dirs draw_fresh page
  show ?thesis by (intro conjI)
qed

subsection \<open>File names\<close>

lemma blocks_labels:
  "map (\<lambda>(filename, req, others). label_of filename req) blocks =
     [Some ''acme'', Some ''techstart'', Some ''globalco'', Some ''consult'', Some ''freelance'',
      Some ''bigbank'', Some ''invest'', Some ''mortgage'', None, Some ''lowquality'']"
  by (simp add: blocks_def label_of_def strip_prefix_def strip_suffix_def call_w2_def
        call_1099nec_def call_1099int_def call_1099div_def call_1098_def)

lemma lower_names:
  "map lower ''Acme Corp'' = ''acme corp''"
  "map lower ''TechStart Inc'' = ''techstart inc''"
  "map lower ''GlobalCo LLC'' = ''globalco llc''"
  "map lower ''Consulting Partners'' = ''consulting partners''"
  "map lower ''Freelance Hub'' = ''freelance hub''"
  "map lower ''Big Bank'' = ''big bank''"
  "map lower ''Investment Corp'' = ''investment corp''"
  "map lower ''Home Loans Inc'' = ''home loans inc''"
  by (simp_all add: lower_def)

lemma slugs:
  "slug_of ''acme'' ''Acme Corp''"
  "slug_of ''techstart'' ''TechStart Inc''"
  "slug_of ''globalco'' ''GlobalCo LLC''"
  "slug_of ''consult'' ''Consulting Partners''"
  "slug_of ''freelance'' ''Freelance Hub''"
  "slug_of ''bigbank'' ''Big Bank''"
  "slug_of ''invest'' ''Investment Corp''"
  unfolding slug_of_def lower_names by simp_all

lemma mortgage_no_slug: "\<not> slug_of ''mortgage'' ''Home Loans Inc''"
  unfolding slug_of_def lower_names by simp

lemma blocks_stated:
  "map stated_pattern blocks =
     [True, True, True, True, True, True, True, False, True, True]"
  by (simp add: blocks_def stated_pattern_def label_of_def strip_prefix_def strip_suffix_def
        call_w2_def call_1099nec_def call_1099int_def call_1099div_def call_1098_def slugs
        mortgage_no_slug)

lemma blocks_written: "list_all written_pattern blocks"
  by (simp add: blocks_def written_pattern_def label_of_def strip_prefix_def strip_suffix_def
        call_w2_def call_1099nec_def call_1099int_def call_1099div_def call_1098_def slugs)

lemma blocks_parts:
  "map (\<lambda>(filename, req, others). (type_slug req, counterparty req, req_year req)) blocks =
     [(''w2'', ''Acme Corp'', ''2024''), (''w2'', ''TechStart Inc'', ''2024''),
      (''w2'', ''GlobalCo LLC'', ''2024''), (''1099nec'', ''Consulting Partners'', ''2024''),
      (''1099nec'', ''Freelance Hub'', ''2024''), (''1099int'', ''Big Bank'', ''2024''),
      (''1099div'', ''Investment Corp'', ''2024''), (''1098'', ''Home Loans Inc'', ''2024''),
      (''w2'', [], ''2024''), (''w2'', ''Faded Corp'', ''2024'')]"
  by (simp add: blocks_def call_w2_def call_1099nec_def call_1099int_def call_1099div_def
        call_1098_def)

lemma block_mortgage:
  "blocks ! 7 = (''1098-mortgage-2024.pdf'', call_1098 ''Home Loans Inc'' (lit 1234500 2),
      [(''type'', Str ''1098''), (''lender'', Str ''Home Loans Inc''),
       (''interest'', Num (lit 1234500 2))])"
  by (simp add: blocks_def)

lemma label_mortgage:
  "label_of ''1098-mortgage-2024.pdf'' (call_1098 ''Home Loans Inc'' (lit 1234500 2)) =
     Some ''mortgage''"
  by (simp add: label_of_def strip_prefix_def strip_suffix_def call_1098_def)

lemma not_stated_mortgage: "\<not> stated_pattern (blocks ! 7)"
  unfolding block_mortgage
  by (simp add: stated_pattern_def label_mortgage)
     (simp add: call_1098_def mortgage_no_slug)

lemma length_blocks: "length blocks = 10"
  by (simp add: blocks_def)

lemma not_all_stated: "\<not> list_all stated_pattern blocks"
proof
  assume "list_all stated_pattern blocks"
  then have "\<forall>n < length blocks. stated_pattern (blocks ! n)"
    by (simp only: list_all_length)
  then have "stated_pattern (blocks ! 7)"
    by (simp add: length_blocks)
  with not_stated_mortgage show False ..
qed

text \<open>
  Claim C6, as the program has it. Every file name of the driver starts with the type slug
  of the request. The name of the blank template is \<^verbatim>\<open><type-slug>-blank-template.pdf\<close>, the
  name of the low-quality document is \<^verbatim>\<open><type-slug>-lowquality-<year>.pdf\<close>, and every
  other name is \<^verbatim>\<open><type-slug>-<word>-<year>.pdf\<close> with the year of the request, where the
  word is a slug of the counterparty's name for the W-2, 1099-NEC, 1099-INT and 1099-DIV
  requests and the word \<^verbatim>\<open>mortgage\<close> for the 1098 request. These are the file names of the
  manifest that a run returns.
\<close>

theorem file_names:
  "list_all written_pattern blocks
   \<and> map entry_filename (snd (main w)) = map fst blocks
   \<and> map (\<lambda>(filename, req, others). label_of filename req) blocks =
     [Some ''acme'', Some ''techstart'', Some ''globalco'', Some ''consult'', Some ''freelance'',
      Some ''bigbank'', Some ''invest'', Some ''mortgage'', None, Some ''lowquality'']
   \<and> map (\<lambda>(filename, req, others). (type_slug req, counterparty req, req_year req)) blocks =
     [(''w2'', ''Acme Corp'', ''2024''), (''w2'', ''TechStart Inc'', ''2024''),
      (''w2'', ''GlobalCo LLC'', ''2024''), (''1099nec'', ''Consulting Partners'', ''2024''),
      (''1099nec'', ''Freelance Hub'', ''2024''), (''1099int'', ''Big Bank'', ''2024''),
      (''1099div'', ''Investment Corp'', ''2024''), (''1098'', ''Home Loans Inc'', ''2024''),
      (''w2'', [], ''2024''), (''w2'', ''Faded Corp'', ''2024'')]
   \<and> map stated_pattern blocks =
     [True, True, True, True, True, True, True, False, True, True]"
  using blocks_written main_filenames blocks_labels blocks_parts blocks_stated
  by (intro conjI)

text \<open>
  The pattern as it is stated fails for the 1098 of the driver: the word of
  \<^verbatim>\<open>1098-mortgage-2024.pdf\<close> is \<^verbatim>\<open>mortgage\<close>, which is no slug of the counterparty
  "Home Loans Inc" ("r" does not occur in the name).
\<close>

theorem file_names_mortgage:
  "blocks ! 7 = (''1098-mortgage-2024.pdf'', call_1098 ''Home Loans Inc'' (lit 1234500 2),
      [(''type'', Str ''1098''), (''lender'', Str ''Home Loans Inc''),
       (''interest'', Num (lit 1234500 2))])
   \<and> label_of ''1098-mortgage-2024.pdf'' (call_1098 ''Home Loans Inc'' (lit 1234500 2)) =
       Some ''mortgage''
   \<and> \<not> slug_of ''mortgage'' ''Home Loans Inc''
   \<and> \<not> stated_pattern (blocks ! 7)
   \<and> \<not> list_all stated_pattern blocks"
  using block_mortgage label_mortgage mortgage_no_slug not_stated_mortgage not_all_stated
  by (intro conjI)

end
